theory Spec2Isabelle
  imports Main
begin

section \<open>The GCE host driver: instance/disk lifecycle controller\<close>

text \<open>
  A shallow embedding of \<^verbatim>\<open>hosts/drivers/gce/gce.go\<close> and
  \<^verbatim>\<open>hosts/drivers/gce/compute_util.go\<close>.

  The driver talks to collaborators that are not part of the package: the generated
  Compute Engine client (\<^verbatim>\<open>raw.Service\<close>), the \<^verbatim>\<open>ssh\<close> package, the file system
  and the OAuth service factory. They are a parameter of every definition (the record
  \<open>env\<close> below), acting on a world of an arbitrary type \<open>'w\<close>; the theorems hold for
  every behaviour of these collaborators unless a hypothesis says otherwise.

  Every Go function becomes a function from the world before the call to a triple:
  how the call ended, the world after it, and the collaborator calls it issued, in order.
  Logging (\<^verbatim>\<open>log.Infof\<close>, \<^verbatim>\<open>log.Debugf\<close>, \<^verbatim>\<open>log.Errorf\<close>) and the one-second
  \<^verbatim>\<open>time.Sleep\<close> between polls have no effect on control flow and are left out.
\<close>

subsection \<open>Data of the Compute Engine client\<close>

text \<open>Only the fields the driver reads or writes are kept.\<close>

record Disk =
  Disk_Name :: string

record AttachedDisk =
  AttachedDisk_Boot :: bool
  AttachedDisk_AutoDelete :: bool
  AttachedDisk_Type :: string
  AttachedDisk_Mode :: string
  AttachedDisk_Source :: string

record AccessConfig =
  AccessConfig_Type :: string
  AccessConfig_NatIP :: string

record NetworkInterface =
  NetworkInterface_AccessConfigs :: "AccessConfig list"
  NetworkInterface_Network :: string

record MetadataItems =
  MetadataItems_Key :: string
  MetadataItems_Value :: string

record Metadata =
  Metadata_Fingerprint :: string
  Metadata_Items :: "MetadataItems list"

text \<open>\<open>Instance_Metadata\<close> is a pointer in Go: \<open>None\<close> is the nil pointer.\<close>

record Instance =
  Instance_Name :: string
  Instance_Description :: string
  Instance_MachineType :: string
  Instance_Disks :: "AttachedDisk list"
  Instance_NetworkInterfaces :: "NetworkInterface list"
  Instance_Status :: string
  Instance_Metadata :: "Metadata option"

record OperationErrorErrors =
  OperationErrorErrors_Code :: string
  OperationErrorErrors_Message :: string

text \<open>
  \<open>Operation_Error\<close> is the pointer \<^verbatim>\<open>op.Error\<close> (\<open>None\<close> is nil); when present it
  holds the list \<^verbatim>\<open>op.Error.Errors\<close>.
\<close>

record Operation =
  Operation_Name :: string
  Operation_Status :: string
  Operation_Error :: "OperationErrorErrors list option"

subsection \<open>Errors, outcomes and the trace of collaborator calls\<close>

text \<open>
  Go's \<^verbatim>\<open>error\<close> values. The first two come from collaborators (a non-2xx answer of
  the API with its HTTP code, or any other failure); the last two are the errors the
  driver builds itself with \<^verbatim>\<open>fmt.Errorf\<close>:
  \<^verbatim>\<open>"Instance %v already exists."\<close> and \<^verbatim>\<open>"Operation error: %v"\<close>.
\<close>

datatype error =
    ApiError nat string
  | TransportError string
  | InstanceAlreadyExists string
  | OperationError OperationErrorErrors

text \<open>
  A call returns a value, panics (a nil dereference or an index out of range), or is
  still polling when the fuel given to the poll loop is used up.
\<close>

datatype 'a outcome = Returns 'a | Panics | OutOfFuel

datatype api_call =
    NewGCEService string
  | DisksGet string string string
  | DisksInsert string string Disk string
  | DisksDelete string string string
  | InstancesGet string string string
  | InstancesInsert string string Instance
  | InstancesDelete string string string
  | InstancesSetMetadata string string string Metadata
  | ZoneOperationsGet string string string
  | GenerateSSHKey string
  | WaitForTCP string
  | ReadFile string
  | RunSSHCommand string nat string string string

text \<open>
  The collaborators. A Go result pair \<^verbatim>\<open>(*T, error)\<close> is a pair of options: the
  pointer (\<open>None\<close> is nil) and the error (\<open>None\<close> is nil).
\<close>

record 'w env =
  newGCEService :: "string \<Rightarrow> 'w \<Rightarrow> error option \<times> 'w"
  Disks_Get :: "string \<Rightarrow> string \<Rightarrow> string \<Rightarrow> 'w \<Rightarrow> (Disk option \<times> error option) \<times> 'w"
  Disks_Insert ::
    "string \<Rightarrow> string \<Rightarrow> Disk \<Rightarrow> string \<Rightarrow> 'w \<Rightarrow> (Operation option \<times> error option) \<times> 'w"
  Disks_Delete ::
    "string \<Rightarrow> string \<Rightarrow> string \<Rightarrow> 'w \<Rightarrow> (Operation option \<times> error option) \<times> 'w"
  Instances_Get ::
    "string \<Rightarrow> string \<Rightarrow> string \<Rightarrow> 'w \<Rightarrow> (Instance option \<times> error option) \<times> 'w"
  Instances_Insert ::
    "string \<Rightarrow> string \<Rightarrow> Instance \<Rightarrow> 'w \<Rightarrow> (Operation option \<times> error option) \<times> 'w"
  Instances_Delete ::
    "string \<Rightarrow> string \<Rightarrow> string \<Rightarrow> 'w \<Rightarrow> (Operation option \<times> error option) \<times> 'w"
  Instances_SetMetadata ::
    "string \<Rightarrow> string \<Rightarrow> string \<Rightarrow> Metadata \<Rightarrow> 'w
      \<Rightarrow> (Operation option \<times> error option) \<times> 'w"
  ZoneOperations_Get ::
    "string \<Rightarrow> string \<Rightarrow> string \<Rightarrow> 'w \<Rightarrow> (Operation option \<times> error option) \<times> 'w"
  ssh_GenerateSSHKey :: "string \<Rightarrow> 'w \<Rightarrow> error option \<times> 'w"
  ssh_WaitForTCP :: "string \<Rightarrow> 'w \<Rightarrow> error option \<times> 'w"
  ioutil_ReadFile :: "string \<Rightarrow> 'w \<Rightarrow> (string \<times> error option) \<times> 'w"
  ssh_Run :: "string \<Rightarrow> nat \<Rightarrow> string \<Rightarrow> string \<Rightarrow> string \<Rightarrow> 'w \<Rightarrow> error option \<times> 'w"

type_synonym ('a, 'w) run = "'a outcome \<times> 'w \<times> api_call list"

text \<open>One collaborator call: it returns its result and is recorded in the trace.\<close>

definition invoke :: "api_call \<Rightarrow> ('w \<Rightarrow> 'a \<times> 'w) \<Rightarrow> 'w \<Rightarrow> ('a, 'w) run" where
  "invoke c f w = (case f w of (r, w') \<Rightarrow> (Returns r, w', [c]))"

text \<open>
  Sequencing: the rest of a function body runs only when the first part returned; a
  panic or an unfinished poll loop ends the whole call. The traces are concatenated.
\<close>

definition andThen :: "('a, 'w) run \<Rightarrow> ('a \<Rightarrow> 'w \<Rightarrow> ('b, 'w) run) \<Rightarrow> ('b, 'w) run" where
  "andThen m k =
     (case m of
        (Returns a, w, t) \<Rightarrow> (case k a w of (r, w', t') \<Rightarrow> (r, w', t @ t'))
      | (Panics, w, t) \<Rightarrow> (Panics, w, t)
      | (OutOfFuel, w, t) \<Rightarrow> (OutOfFuel, w, t))"

definition outcome_of :: "('a, 'w) run \<Rightarrow> 'a outcome" where
  "outcome_of m = fst m"

definition world_of :: "('a, 'w) run \<Rightarrow> 'w" where
  "world_of m = fst (snd m)"

definition calls_of :: "('a, 'w) run \<Rightarrow> api_call list" where
  "calls_of m = snd (snd m)"

text \<open>
  The calls themselves, each recorded with its arguments. \<open>do_Disks_Get env p z n\<close> is
  \<^verbatim>\<open>c.service.Disks.Get(p, z, n).Do()\<close>, and so on; \<open>do_ssh_Run\<close> is
  \<^verbatim>\<open>ssh.GetSSHCommand(ip, port, user, key, command).Run()\<close>.
\<close>

definition do_newGCEService :: "'w env \<Rightarrow> string \<Rightarrow> 'w \<Rightarrow> (error option, 'w) run" where
  "do_newGCEService env path w = invoke (NewGCEService path) (newGCEService env path) w"

definition do_Disks_Get ::
  "'w env \<Rightarrow> string \<Rightarrow> string \<Rightarrow> string \<Rightarrow> 'w \<Rightarrow> (Disk option \<times> error option, 'w) run" where
  "do_Disks_Get env p z n w = invoke (DisksGet p z n) (Disks_Get env p z n) w"

definition do_Disks_Insert ::
  "'w env \<Rightarrow> string \<Rightarrow> string \<Rightarrow> Disk \<Rightarrow> string \<Rightarrow> 'w
    \<Rightarrow> (Operation option \<times> error option, 'w) run" where
  "do_Disks_Insert env p z d src w = invoke (DisksInsert p z d src) (Disks_Insert env p z d src) w"

definition do_Disks_Delete ::
  "'w env \<Rightarrow> string \<Rightarrow> string \<Rightarrow> string \<Rightarrow> 'w \<Rightarrow> (Operation option \<times> error option, 'w) run" where
  "do_Disks_Delete env p z n w = invoke (DisksDelete p z n) (Disks_Delete env p z n) w"

definition do_Instances_Get ::
  "'w env \<Rightarrow> string \<Rightarrow> string \<Rightarrow> string \<Rightarrow> 'w \<Rightarrow> (Instance option \<times> error option, 'w) run" where
  "do_Instances_Get env p z n w = invoke (InstancesGet p z n) (Instances_Get env p z n) w"

definition do_Instances_Insert ::
  "'w env \<Rightarrow> string \<Rightarrow> string \<Rightarrow> Instance \<Rightarrow> 'w \<Rightarrow> (Operation option \<times> error option, 'w) run" where
  "do_Instances_Insert env p z i w = invoke (InstancesInsert p z i) (Instances_Insert env p z i) w"

definition do_Instances_Delete ::
  "'w env \<Rightarrow> string \<Rightarrow> string \<Rightarrow> string \<Rightarrow> 'w \<Rightarrow> (Operation option \<times> error option, 'w) run" where
  "do_Instances_Delete env p z n w = invoke (InstancesDelete p z n) (Instances_Delete env p z n) w"

definition do_Instances_SetMetadata ::
  "'w env \<Rightarrow> string \<Rightarrow> string \<Rightarrow> string \<Rightarrow> Metadata \<Rightarrow> 'w
    \<Rightarrow> (Operation option \<times> error option, 'w) run" where
  "do_Instances_SetMetadata env p z n m w =
     invoke (InstancesSetMetadata p z n m) (Instances_SetMetadata env p z n m) w"

definition do_ZoneOperations_Get ::
  "'w env \<Rightarrow> string \<Rightarrow> string \<Rightarrow> string \<Rightarrow> 'w \<Rightarrow> (Operation option \<times> error option, 'w) run" where
  "do_ZoneOperations_Get env p z n w =
     invoke (ZoneOperationsGet p z n) (ZoneOperations_Get env p z n) w"

definition do_ssh_GenerateSSHKey :: "'w env \<Rightarrow> string \<Rightarrow> 'w \<Rightarrow> (error option, 'w) run" where
  "do_ssh_GenerateSSHKey env path w = invoke (GenerateSSHKey path) (ssh_GenerateSSHKey env path) w"

definition do_ssh_WaitForTCP :: "'w env \<Rightarrow> string \<Rightarrow> 'w \<Rightarrow> (error option, 'w) run" where
  "do_ssh_WaitForTCP env addr w = invoke (WaitForTCP addr) (ssh_WaitForTCP env addr) w"

definition do_ioutil_ReadFile :: "'w env \<Rightarrow> string \<Rightarrow> 'w \<Rightarrow> (string \<times> error option, 'w) run" where
  "do_ioutil_ReadFile env path w = invoke (ReadFile path) (ioutil_ReadFile env path) w"

definition do_ssh_Run ::
  "'w env \<Rightarrow> string \<Rightarrow> nat \<Rightarrow> string \<Rightarrow> string \<Rightarrow> string \<Rightarrow> 'w \<Rightarrow> (error option, 'w) run" where
  "do_ssh_Run env ip port user key command w =
     invoke (RunSSHCommand ip port user key command) (ssh_Run env ip port user key command) w"

subsection \<open>The driver and its API wrapper\<close>

record Driver =
  InstanceName :: string
  Zone :: string
  MachineType :: string
  storePath :: string
  UserName :: string
  Project :: string
  sshKeyPath :: string
  publicSSHKeyPath :: string

text \<open>The field \<^verbatim>\<open>service\<close> of the Go struct is the record \<open>env\<close>.\<close>

record ComputeUtil =
  zone :: string
  instanceName :: string
  userName :: string
  project :: string
  zoneURL :: string
  globalURL :: string

datatype State = None_State | Running | Stopped | Starting

definition apiURL :: string where
  "apiURL = ''https://www.googleapis.com/compute/v1/projects/''"

definition imageName :: string where
  "imageName = ''https://www.googleapis.com/compute/v1/projects/google-containers/global/images/container-vm-v20141016''"

definition newComputeUtil :: "'w env \<Rightarrow> Driver \<Rightarrow> 'w \<Rightarrow> (error + ComputeUtil, 'w) run" where
  "newComputeUtil env driver w =
     andThen (do_newGCEService env (storePath driver) w)
       (\<lambda>err w. case err of
          Some e \<Rightarrow> (Returns (Inl e), w, [])
        | None \<Rightarrow>
            (Returns (Inr \<lparr>zone = Zone driver,
                           instanceName = InstanceName driver,
                           userName = UserName driver,
                           project = Project driver,
                           zoneURL = apiURL @ Project driver @ ''/zones/'' @ Zone driver,
                           globalURL = apiURL @ Project driver @ ''/global''\<rparr>), w, []))"

definition diskName :: "ComputeUtil \<Rightarrow> string" where
  "diskName c = instanceName c @ ''-disk''"

definition disk :: "'w env \<Rightarrow> ComputeUtil \<Rightarrow> 'w \<Rightarrow> (Disk option \<times> error option, 'w) run" where
  "disk env c w =
     do_Disks_Get env (project c) (zone c) (diskName c) w"

definition instance' ::
  "'w env \<Rightarrow> ComputeUtil \<Rightarrow> 'w \<Rightarrow> (Instance option \<times> error option, 'w) run" where
  "instance' env c w =
     do_Instances_Get env (project c) (zone c) (instanceName c) w"

text \<open>
  \<^verbatim>\<open>waitForOp\<close>: the loop has no bound in the source. The first argument is the number
  of polls the model allows; with none left the result is \<open>OutOfFuel\<close>. The
  \<^verbatim>\<open>log.Debugf\<close> line reads \<^verbatim>\<open>op.Name\<close>, so a nil operation with a nil error
  panics, and so does \<^verbatim>\<open>op.Error.Errors[0]\<close> on an empty list.
\<close>

fun waitForOp :: "nat \<Rightarrow> 'w env \<Rightarrow> ComputeUtil \<Rightarrow> string \<Rightarrow> 'w \<Rightarrow> (error option, 'w) run" where
  "waitForOp 0 env c name w = (OutOfFuel, w, [])"
| "waitForOp (Suc fuel) env c name w =
     andThen (do_ZoneOperations_Get env (project c) (zone c) name w)
       (\<lambda>r w. case r of
          (_, Some err) \<Rightarrow> (Returns (Some err), w, [])
        | (None, None) \<Rightarrow> (Panics, w, [])
        | (Some op, None) \<Rightarrow>
            if Operation_Status op = ''DONE'' then
              (case Operation_Error op of
                 Some [] \<Rightarrow> (Panics, w, [])
               | Some (e # _) \<Rightarrow> (Returns (Some (OperationError e)), w, [])
               | None \<Rightarrow> (Returns None, w, []))
            else waitForOp fuel env c name w)"

text \<open>
  \<^verbatim>\<open>GetState\<close> returns the pair \<^verbatim>\<open>(state.State, error)\<close>. The errors of the two
  lookups are discarded (\<^verbatim>\<open>disk, _ := c.disk()\<close>); only the pointers are tested.
\<close>

definition GetState :: "'w env \<Rightarrow> Driver \<Rightarrow> 'w \<Rightarrow> (State \<times> error option, 'w) run" where
  "GetState env driver w =
     andThen (newComputeUtil env driver w)
       (\<lambda>r w. case r of
          Inl err \<Rightarrow> (Returns (None_State, Some err), w, [])
        | Inr c \<Rightarrow>
            andThen (disk env c w)
              (\<lambda>(disk, _) w.
                 andThen (instance' env c w)
                   (\<lambda>(instance, _) w.
                      case instance of
                        None \<Rightarrow>
                          (case disk of
                             None \<Rightarrow> (Returns (None_State, None), w, [])
                           | Some _ \<Rightarrow> (Returns (Stopped, None), w, []))
                      | Some i \<Rightarrow>
                          if Instance_Status i = ''PROVISIONING'' then (Returns (Starting, None), w, [])
                          else if Instance_Status i = ''STAGING'' then (Returns (Starting, None), w, [])
                          else if Instance_Status i = ''RUNNING'' then (Returns (Running, None), w, [])
                          else if Instance_Status i = ''STOPPING'' then (Returns (Stopped, None), w, [])
                          else if Instance_Status i = ''STOPPED'' then (Returns (Stopped, None), w, [])
                          else if Instance_Status i = ''TERMINATED'' then (Returns (Stopped, None), w, [])
                          else (Returns (None_State, None), w, []))))"

subsection \<open>Lifecycle steps of the API wrapper\<close>

definition createDisk :: "nat \<Rightarrow> 'w env \<Rightarrow> ComputeUtil \<Rightarrow> 'w \<Rightarrow> (error option, 'w) run" where
  "createDisk fuel env c w =
     andThen (do_Disks_Insert env (project c) (zone c) \<lparr>Disk_Name = diskName c\<rparr> imageName w)
       (\<lambda>r w. case r of
          (_, Some err) \<Rightarrow> (Returns (Some err), w, [])
        | (None, None) \<Rightarrow> (Panics, w, [])
        | (Some op, None) \<Rightarrow> waitForOp fuel env c (Operation_Name op) w)"

definition deleteDisk :: "nat \<Rightarrow> 'w env \<Rightarrow> ComputeUtil \<Rightarrow> 'w \<Rightarrow> (error option, 'w) run" where
  "deleteDisk fuel env c w =
     andThen (do_Disks_Delete env (project c) (zone c) (diskName c) w)
       (\<lambda>r w. case r of
          (_, Some err) \<Rightarrow> (Returns (Some err), w, [])
        | (None, None) \<Rightarrow> (Panics, w, [])
        | (Some op, None) \<Rightarrow> waitForOp fuel env c (Operation_Name op) w)"

definition deleteInstance :: "nat \<Rightarrow> 'w env \<Rightarrow> ComputeUtil \<Rightarrow> 'w \<Rightarrow> (error option, 'w) run" where
  "deleteInstance fuel env c w =
     andThen (do_Instances_Delete env (project c) (zone c) (instanceName c) w)
       (\<lambda>r w. case r of
          (_, Some err) \<Rightarrow> (Returns (Some err), w, [])
        | (None, None) \<Rightarrow> (Panics, w, [])
        | (Some op, None) \<Rightarrow> waitForOp fuel env c (Operation_Name op) w)"

text \<open>\<^verbatim>\<open>executeCommands\<close> runs the commands in order and stops at the first failure.\<close>

fun executeCommands ::
  "'w env \<Rightarrow> ComputeUtil \<Rightarrow> string list \<Rightarrow> string \<Rightarrow> string \<Rightarrow> 'w \<Rightarrow> (error option, 'w) run" where
  "executeCommands env c [] ip sshKeyPath' w = (Returns None, w, [])"
| "executeCommands env c (command # commands) ip sshKeyPath' w =
     andThen (do_ssh_Run env ip 22 (userName c) sshKeyPath' command w)
       (\<lambda>err w. case err of
          Some e \<Rightarrow> (Returns (Some e), w, [])
        | None \<Rightarrow> executeCommands env c commands ip sshKeyPath' w)"

definition configureInstance ::
  "'w env \<Rightarrow> ComputeUtil \<Rightarrow> string \<Rightarrow> string \<Rightarrow> 'w \<Rightarrow> (error option, 'w) run" where
  "configureInstance env c ip sshKeyPath' w =
     executeCommands env c
       [''sudo sed -i '' @ [CHR 0x27] @ ''s/DOCKER_OPTS=.*/DOCKER_OPTS='' @ [CHR 0x22]
          @ ''-H 0.0.0.0:2375'' @ [CHR 0x22] @ ''/g'' @ [CHR 0x27] @ '' /etc/default/docker'',
        ''sudo service docker restart'']
       ip sshKeyPath' w"

definition updateDocker ::
  "'w env \<Rightarrow> ComputeUtil \<Rightarrow> string \<Rightarrow> string \<Rightarrow> 'w \<Rightarrow> (error option, 'w) run" where
  "updateDocker env c ip sshKeyPath' w =
     executeCommands env c
       [''sudo service docker stop'',
        ''sleep 10'',
        ''sudo wget https://get.docker.com/builds/Linux/x86_64/docker-latest -O /usr/bin/docker && sudo chmod +x /usr/bin/docker'',
        ''sudo service docker start'']
       ip sshKeyPath' w"

definition waitForSSH :: "'w env \<Rightarrow> ComputeUtil \<Rightarrow> string \<Rightarrow> 'w \<Rightarrow> (error option, 'w) run" where
  "waitForSSH env c ip w = do_ssh_WaitForTCP env (ip @ '':22'') w"

text \<open>
  \<^verbatim>\<open>createInstance\<close>. The error of the disk lookup is never read (it is overwritten by
  the insert call); the result of \<^verbatim>\<open>c.waitForSSH(ip)\<close> is not bound at all.
  \<^verbatim>\<open>instance.NetworkInterfaces[0].AccessConfigs[0].NatIP\<close> panics on a nil instance
  or an empty list, \<^verbatim>\<open>instance.Metadata.Fingerprint\<close> on nil metadata.
\<close>

definition createInstance ::
  "nat \<Rightarrow> 'w env \<Rightarrow> ComputeUtil \<Rightarrow> string \<Rightarrow> string \<Rightarrow> string \<Rightarrow> 'w \<Rightarrow> (error option, 'w) run" where
  "createInstance fuel env c publicSSHKeyPath' sshKeyPath' machineType w =
     andThen (disk env c w)
       (\<lambda>(disk, _) w.
     andThen (case disk of None \<Rightarrow> createDisk fuel env c w | Some _ \<Rightarrow> (Returns None, w, []))
       (\<lambda>err w. case err of Some e \<Rightarrow> (Returns (Some e), w, []) | None \<Rightarrow>
     andThen (do_Instances_Insert env (project c) (zone c)
                \<lparr>Instance_Name = instanceName c,
                 Instance_Description = ''docker host vm'',
                 Instance_MachineType = zoneURL c @ ''/machineTypes/'' @ machineType,
                 Instance_Disks =
                   [\<lparr>AttachedDisk_Boot = True,
                     AttachedDisk_AutoDelete = False,
                     AttachedDisk_Type = ''PERSISTENT'',
                     AttachedDisk_Mode = ''READ_WRITE'',
                     AttachedDisk_Source = zoneURL c @ ''/disks/'' @ instanceName c @ ''-disk''\<rparr>],
                 Instance_NetworkInterfaces =
                   [\<lparr>NetworkInterface_AccessConfigs =
                       [\<lparr>AccessConfig_Type = ''ONE_TO_ONE_NAT'', AccessConfig_NatIP = []\<rparr>],
                     NetworkInterface_Network = globalURL c @ ''/networks/default''\<rparr>],
                 Instance_Status = [],
                 Instance_Metadata = None\<rparr> w)
       (\<lambda>r w. case r of
          (_, Some err) \<Rightarrow> (Returns (Some err), w, [])
        | (None, None) \<Rightarrow> (Panics, w, [])
        | (Some op, None) \<Rightarrow>
     andThen (waitForOp fuel env c (Operation_Name op) w)
       (\<lambda>err w. case err of Some e \<Rightarrow> (Returns (Some e), w, []) | None \<Rightarrow>
     andThen (instance' env c w)
       (\<lambda>r w. case r of
          (_, Some err) \<Rightarrow> (Returns (Some err), w, [])
        | (None, None) \<Rightarrow> (Panics, w, [])
        | (Some instance, None) \<Rightarrow>
            (case Instance_NetworkInterfaces instance of
               [] \<Rightarrow> (Panics, w, [])
             | ni # _ \<Rightarrow>
            (case NetworkInterface_AccessConfigs ni of
               [] \<Rightarrow> (Panics, w, [])
             | ac # _ \<Rightarrow>
     andThen (waitForSSH env c (AccessConfig_NatIP ac) w)
       (\<lambda>_ w.
     andThen (do_ioutil_ReadFile env publicSSHKeyPath' w)
       (\<lambda>(sshKey, err) w. case err of Some e \<Rightarrow> (Returns (Some e), w, []) | None \<Rightarrow>
            (case Instance_Metadata instance of
               None \<Rightarrow> (Panics, w, [])
             | Some metadata \<Rightarrow>
     andThen (do_Instances_SetMetadata env (project c) (zone c) (instanceName c)
                \<lparr>Metadata_Fingerprint = Metadata_Fingerprint metadata,
                 Metadata_Items =
                   [\<lparr>MetadataItems_Key = ''sshKeys'',
                     MetadataItems_Value = userName c @ '':'' @ sshKey @ [CHR 0x0A]\<rparr>]\<rparr> w)
       (\<lambda>r w. case r of
          (_, Some err) \<Rightarrow> (Returns (Some err), w, [])
        | (None, None) \<Rightarrow> (Panics, w, [])
        | (Some op, None) \<Rightarrow>
     andThen (waitForOp fuel env c (Operation_Name op) w)
       (\<lambda>err w. case err of Some e \<Rightarrow> (Returns (Some e), w, []) | None \<Rightarrow>
     andThen (configureInstance env c (AccessConfig_NatIP ac) sshKeyPath' w)
       (\<lambda>err w. case err of Some e \<Rightarrow> (Returns (Some e), w, []) | None \<Rightarrow>
     updateDocker env c (AccessConfig_NatIP ac) sshKeyPath' w)))))))))))))"

subsection \<open>The verbs of the driver\<close>

definition Create :: "nat \<Rightarrow> 'w env \<Rightarrow> Driver \<Rightarrow> 'w \<Rightarrow> (error option, 'w) run" where
  "Create fuel env driver w =
     andThen (newComputeUtil env driver w)
       (\<lambda>r w. case r of
          Inl err \<Rightarrow> (Returns (Some err), w, [])
        | Inr c \<Rightarrow>
            andThen (instance' env c w)
              (\<lambda>(instance, _) w. case instance of
                 Some _ \<Rightarrow> (Returns (Some (InstanceAlreadyExists (InstanceName driver))), w, [])
               | None \<Rightarrow>
                   andThen (do_ssh_GenerateSSHKey env (sshKeyPath driver) w)
                     (\<lambda>err w. case err of
                        Some e \<Rightarrow> (Returns (Some e), w, [])
                      | None \<Rightarrow>
                          createInstance fuel env c (publicSSHKeyPath driver) (sshKeyPath driver)
                            (MachineType driver) w)))"

definition Start :: "nat \<Rightarrow> 'w env \<Rightarrow> Driver \<Rightarrow> 'w \<Rightarrow> (error option, 'w) run" where
  "Start fuel env driver w =
     andThen (newComputeUtil env driver w)
       (\<lambda>r w. case r of
          Inl err \<Rightarrow> (Returns (Some err), w, [])
        | Inr c \<Rightarrow>
            createInstance fuel env c (publicSSHKeyPath driver) (sshKeyPath driver)
              (MachineType driver) w)"

definition Stop :: "nat \<Rightarrow> 'w env \<Rightarrow> Driver \<Rightarrow> 'w \<Rightarrow> (error option, 'w) run" where
  "Stop fuel env driver w =
     andThen (newComputeUtil env driver w)
       (\<lambda>r w. case r of
          Inl err \<Rightarrow> (Returns (Some err), w, [])
        | Inr c \<Rightarrow> deleteInstance fuel env c w)"

text \<open>
  \<^verbatim>\<open>Remove\<close>: when the state is \<^verbatim>\<open>state.Running\<close> the instance is deleted first; an
  error of that step is logged and not returned, and the disk is deleted in any case.
\<close>

definition Remove :: "nat \<Rightarrow> 'w env \<Rightarrow> Driver \<Rightarrow> 'w \<Rightarrow> (error option, 'w) run" where
  "Remove fuel env driver w =
     andThen (newComputeUtil env driver w)
       (\<lambda>r w. case r of
          Inl err \<Rightarrow> (Returns (Some err), w, [])
        | Inr c \<Rightarrow>
            andThen (GetState env driver w)
              (\<lambda>(s, err) w. case err of
                 Some e \<Rightarrow> (Returns (Some e), w, [])
               | None \<Rightarrow>
                   andThen (if s = Running then deleteInstance fuel env c w
                            else (Returns None, w, []))
                     (\<lambda>_ w. deleteDisk fuel env c w)))"


definition Kill :: "nat \<Rightarrow> 'w env \<Rightarrow> Driver \<Rightarrow> 'w \<Rightarrow> (error option, 'w) run" where
  "Kill fuel env driver w = Stop fuel env driver w"

subsection \<open>Classifying the calls of a trace\<close>

text \<open>The calls that change a remote resource: inserts, deletes and the metadata write.\<close>

fun mutating :: "api_call \<Rightarrow> bool" where
  "mutating (DisksInsert p z d src) = True"
| "mutating (DisksDelete p z n) = True"
| "mutating (InstancesInsert p z i) = True"
| "mutating (InstancesDelete p z n) = True"
| "mutating (InstancesSetMetadata p z n m) = True"
| "mutating _ = False"

fun is_DisksInsert :: "api_call \<Rightarrow> bool" where
  "is_DisksInsert (DisksInsert p z d src) = True"
| "is_DisksInsert _ = False"


fun is_InstancesInsert :: "api_call \<Rightarrow> bool" where
  "is_InstancesInsert (InstancesInsert p z i) = True"
| "is_InstancesInsert _ = False"


fun is_ZoneOperationsGet :: "api_call \<Rightarrow> bool" where
  "is_ZoneOperationsGet (ZoneOperationsGet p z n) = True"
| "is_ZoneOperationsGet _ = False"

fun is_WaitForTCP :: "api_call \<Rightarrow> bool" where
  "is_WaitForTCP (WaitForTCP addr) = True"
| "is_WaitForTCP _ = False"

fun is_ReadFile :: "api_call \<Rightarrow> bool" where
  "is_ReadFile (ReadFile path) = True"
| "is_ReadFile _ = False"

fun is_InstancesSetMetadata :: "api_call \<Rightarrow> bool" where
  "is_InstancesSetMetadata (InstancesSetMetadata p z n m) = True"
| "is_InstancesSetMetadata _ = False"

subsection \<open>The parts of createInstance\<close>

text \<open>
  The body of \<^verbatim>\<open>createInstance\<close> cut into three consecutive parts, so that facts about
  a part can be stated for every world it may start in: from the insert call on
  (\<open>insertInstance\<close>), from the second lookup of the instance on (\<open>setupInstance\<close>), and
  from the read of the public key on (\<open>pushKeyAndConfigure\<close>). \<open>newInstance\<close> is the
  \<^verbatim>\<open>raw.Instance\<close> literal of the insert call. They are not functions of the source:
  \<open>createInstance\<close> above is the model of the code, and the lemma
  \<open>createInstance_phases\<close> below shows that it is the composition of these parts.
\<close>

definition pushKeyAndConfigure ::
  "nat \<Rightarrow> 'w env \<Rightarrow> ComputeUtil \<Rightarrow> Instance \<Rightarrow> string \<Rightarrow> string \<Rightarrow> string \<Rightarrow> 'w
    \<Rightarrow> (error option, 'w) run" where
  "pushKeyAndConfigure fuel env c instance ip publicSSHKeyPath' sshKeyPath' w =
     andThen (do_ioutil_ReadFile env publicSSHKeyPath' w)
       (\<lambda>(sshKey, err) w. case err of Some e \<Rightarrow> (Returns (Some e), w, []) | None \<Rightarrow>
            (case Instance_Metadata instance of
               None \<Rightarrow> (Panics, w, [])
             | Some metadata \<Rightarrow>
     andThen (do_Instances_SetMetadata env (project c) (zone c) (instanceName c)
                \<lparr>Metadata_Fingerprint = Metadata_Fingerprint metadata,
                 Metadata_Items =
                   [\<lparr>MetadataItems_Key = ''sshKeys'',
                     MetadataItems_Value = userName c @ '':'' @ sshKey @ [CHR 0x0A]\<rparr>]\<rparr> w)
       (\<lambda>r w. case r of
          (_, Some err) \<Rightarrow> (Returns (Some err), w, [])
        | (None, None) \<Rightarrow> (Panics, w, [])
        | (Some op, None) \<Rightarrow>
     andThen (waitForOp fuel env c (Operation_Name op) w)
       (\<lambda>err w. case err of Some e \<Rightarrow> (Returns (Some e), w, []) | None \<Rightarrow>
     andThen (configureInstance env c ip sshKeyPath' w)
       (\<lambda>err w. case err of Some e \<Rightarrow> (Returns (Some e), w, []) | None \<Rightarrow>
     updateDocker env c ip sshKeyPath' w)))))"

definition setupInstance ::
  "nat \<Rightarrow> 'w env \<Rightarrow> ComputeUtil \<Rightarrow> string \<Rightarrow> string \<Rightarrow> 'w \<Rightarrow> (error option, 'w) run" where
  "setupInstance fuel env c publicSSHKeyPath' sshKeyPath' w =
     andThen (instance' env c w)
       (\<lambda>r w. case r of
          (_, Some err) \<Rightarrow> (Returns (Some err), w, [])
        | (None, None) \<Rightarrow> (Panics, w, [])
        | (Some instance, None) \<Rightarrow>
            (case Instance_NetworkInterfaces instance of
               [] \<Rightarrow> (Panics, w, [])
             | ni # _ \<Rightarrow>
            (case NetworkInterface_AccessConfigs ni of
               [] \<Rightarrow> (Panics, w, [])
             | ac # _ \<Rightarrow>
     andThen (waitForSSH env c (AccessConfig_NatIP ac) w)
       (\<lambda>_ w. pushKeyAndConfigure fuel env c instance (AccessConfig_NatIP ac)
                 publicSSHKeyPath' sshKeyPath' w))))"

definition newInstance :: "ComputeUtil \<Rightarrow> string \<Rightarrow> Instance" where
  "newInstance c machineType =
     \<lparr>Instance_Name = instanceName c,
      Instance_Description = ''docker host vm'',
      Instance_MachineType = zoneURL c @ ''/machineTypes/'' @ machineType,
      Instance_Disks =
        [\<lparr>AttachedDisk_Boot = True,
          AttachedDisk_AutoDelete = False,
          AttachedDisk_Type = ''PERSISTENT'',
          AttachedDisk_Mode = ''READ_WRITE'',
          AttachedDisk_Source = zoneURL c @ ''/disks/'' @ instanceName c @ ''-disk''\<rparr>],
      Instance_NetworkInterfaces =
        [\<lparr>NetworkInterface_AccessConfigs =
            [\<lparr>AccessConfig_Type = ''ONE_TO_ONE_NAT'', AccessConfig_NatIP = []\<rparr>],
          NetworkInterface_Network = globalURL c @ ''/networks/default''\<rparr>],
      Instance_Status = [],
      Instance_Metadata = None\<rparr>"

definition insertInstance ::
  "nat \<Rightarrow> 'w env \<Rightarrow> ComputeUtil \<Rightarrow> string \<Rightarrow> string \<Rightarrow> string \<Rightarrow> 'w \<Rightarrow> (error option, 'w) run" where
  "insertInstance fuel env c publicSSHKeyPath' sshKeyPath' machineType w =
     andThen (do_Instances_Insert env (project c) (zone c) (newInstance c machineType) w)
       (\<lambda>r w. case r of
          (_, Some err) \<Rightarrow> (Returns (Some err), w, [])
        | (None, None) \<Rightarrow> (Panics, w, [])
        | (Some op, None) \<Rightarrow>
     andThen (waitForOp fuel env c (Operation_Name op) w)
       (\<lambda>err w. case err of Some e \<Rightarrow> (Returns (Some e), w, []) | None \<Rightarrow>
     setupInstance fuel env c publicSSHKeyPath' sshKeyPath' w))"

subsection \<open>A simulated provider for concrete runs\<close>

text \<open>
  A small stand-in for the collaborators, used to run the driver on concrete inputs. It
  holds at most one disk and one instance. A lookup or a delete of a name that is not
  there answers with the error 404, as the API client does, and the delete of a disk
  that the instance has attached is refused with the error 400; an insert or a delete
  takes effect at once and hands back a pending operation; a poll answers with the next
  entry of the script \<open>fw_polls\<close>, or with \<^verbatim>\<open>DONE\<close> without errors once the script is
  empty.
\<close>

record fake_world =
  fw_disk :: "Disk option"
  fw_instance :: "Instance option"
  fw_polls :: "(Operation option \<times> error option) list"

definition done_op :: "string \<Rightarrow> Operation" where
  "done_op name = \<lparr>Operation_Name = name, Operation_Status = ''DONE'', Operation_Error = None\<rparr>"

definition pending_op :: "string \<Rightarrow> Operation" where
  "pending_op name = \<lparr>Operation_Name = name, Operation_Status = ''PENDING'', Operation_Error = None\<rparr>"

definition not_found :: error where
  "not_found = ApiError 404 ''notFound''"

definition resource_in_use :: error where
  "resource_in_use = ApiError 400 ''resourceInUseByAnotherResource''"

text \<open>A disk is in use when the instance, if there is one, has it among its attached disks.\<close>

definition in_use :: "string \<Rightarrow> string \<Rightarrow> string \<Rightarrow> Instance option \<Rightarrow> bool" where
  "in_use p z n i =
     (case i of
        None \<Rightarrow> False
      | Some inst \<Rightarrow>
          list_ex (\<lambda>ad. AttachedDisk_Source ad = apiURL @ p @ ''/zones/'' @ z @ ''/disks/'' @ n)
            (Instance_Disks inst))"

definition fake :: "fake_world env" where
  "fake =
     \<lparr>newGCEService = (\<lambda>path w. (None, w)),
      Disks_Get = (\<lambda>p z n w. case fw_disk w of
          None \<Rightarrow> ((None, Some not_found), w)
        | Some d \<Rightarrow> if Disk_Name d = n then ((Some d, None), w) else ((None, Some not_found), w)),
      Disks_Insert = (\<lambda>p z d src w. ((Some (pending_op ''insert-disk''), None), w\<lparr>fw_disk := Some d\<rparr>)),
      Disks_Delete = (\<lambda>p z n w. case fw_disk w of
          None \<Rightarrow> ((None, Some not_found), w)
        | Some d \<Rightarrow>
            if Disk_Name d \<noteq> n then ((None, Some not_found), w)
            else if in_use p z n (fw_instance w) then ((None, Some resource_in_use), w)
            else ((Some (pending_op ''delete-disk''), None), w\<lparr>fw_disk := None\<rparr>)),
      Instances_Get = (\<lambda>p z n w. case fw_instance w of
          None \<Rightarrow> ((None, Some not_found), w)
        | Some i \<Rightarrow> if Instance_Name i = n then ((Some i, None), w) else ((None, Some not_found), w)),
      Instances_Insert = (\<lambda>p z i w.
          ((Some (pending_op ''insert-instance''), None),
           w\<lparr>fw_instance := Some (i\<lparr>Instance_Status := ''RUNNING'',
                Instance_NetworkInterfaces :=
                  [\<lparr>NetworkInterface_AccessConfigs =
                      [\<lparr>AccessConfig_Type = ''ONE_TO_ONE_NAT'', AccessConfig_NatIP = ''203.0.113.7''\<rparr>],
                    NetworkInterface_Network = ''default''\<rparr>],
                Instance_Metadata := Some \<lparr>Metadata_Fingerprint = ''fp0'', Metadata_Items = []\<rparr>\<rparr>)\<rparr>)),
      Instances_Delete = (\<lambda>p z n w. case fw_instance w of
          None \<Rightarrow> ((None, Some not_found), w)
        | Some i \<Rightarrow> if Instance_Name i = n then ((Some (pending_op ''delete-instance''), None), w\<lparr>fw_instance := None\<rparr>)
                    else ((None, Some not_found), w)),
      Instances_SetMetadata = (\<lambda>p z n m w. ((Some (pending_op ''set-metadata''), None), w)),
      ZoneOperations_Get = (\<lambda>p z n w. case fw_polls w of
          [] \<Rightarrow> ((Some (done_op n), None), w)
        | r # rs \<Rightarrow> (r, w\<lparr>fw_polls := rs\<rparr>)),
      ssh_GenerateSSHKey = (\<lambda>path w. (None, w)),
      ssh_WaitForTCP = (\<lambda>addr w. (None, w)),
      ioutil_ReadFile = (\<lambda>path w. ((''ssh-rsa AAAA'', None), w)),
      ssh_Run = (\<lambda>ip port user key command w. (None, w))\<rparr>"

definition host :: Driver where
  "host = \<lparr>InstanceName = ''docker-host'', Zone = ''us-central1-a'', MachineType = ''f1-micro'',
           storePath = ''/store'', UserName = ''user'', Project = ''proj'',
           sshKeyPath = ''/store/id_rsa'', publicSSHKeyPath = ''/store/id_rsa.pub''\<rparr>"

definition empty_world :: fake_world where
  "empty_world = \<lparr>fw_disk = None, fw_instance = None, fw_polls = []\<rparr>"


text \<open>
  An instance of the configured name in a given status. It boots from a disk of another
  name, so the disk \<^verbatim>\<open>docker-host-disk\<close> is not in use by it.
\<close>

definition host_instance :: "string \<Rightarrow> Instance" where
  "host_instance status =
     \<lparr>Instance_Name = ''docker-host'',
      Instance_Description = ''docker host vm'',
      Instance_MachineType = ''f1-micro'',
      Instance_Disks =
        [\<lparr>AttachedDisk_Boot = True,
          AttachedDisk_AutoDelete = False,
          AttachedDisk_Type = ''PERSISTENT'',
          AttachedDisk_Mode = ''READ_WRITE'',
          AttachedDisk_Source =
            ''https://www.googleapis.com/compute/v1/projects/proj/zones/us-central1-a/disks/boot-disk''\<rparr>],
      Instance_NetworkInterfaces =
        [\<lparr>NetworkInterface_AccessConfigs =
            [\<lparr>AccessConfig_Type = ''ONE_TO_ONE_NAT'', AccessConfig_NatIP = ''203.0.113.7''\<rparr>],
          NetworkInterface_Network = ''default''\<rparr>],
      Instance_Status = status,
      Instance_Metadata = Some \<lparr>Metadata_Fingerprint = ''fp0'', Metadata_Items = []\<rparr>\<rparr>"

text \<open>
  The world of \<open>host\<close> with its disk present or not, and its instance absent (\<open>None\<close>)
  or present with the given status.
\<close>

definition host_world :: "bool \<Rightarrow> string option \<Rightarrow> fake_world" where
  "host_world diskPresent status =
     \<lparr>fw_disk = (if diskPresent then Some \<lparr>Disk_Name = ''docker-host-disk''\<rparr> else None),
      fw_instance = map_option host_instance status,
      fw_polls = []\<rparr>"

text \<open>The wrapper \<^verbatim>\<open>newComputeUtil\<close> builds for \<open>host\<close>.\<close>

definition host_util :: ComputeUtil where
  "host_util =
     \<lparr>zone = ''us-central1-a'', instanceName = ''docker-host'', userName = ''user'',
      project = ''proj'',
      zoneURL = ''https://www.googleapis.com/compute/v1/projects/proj/zones/us-central1-a'',
      globalURL = ''https://www.googleapis.com/compute/v1/projects/proj/global''\<rparr>"

text \<open>Scripted poll answers: an operation with a given status and error list.\<close>

definition polled :: "string \<Rightarrow> OperationErrorErrors list option \<Rightarrow> Operation option \<times> error option" where
  "polled status errs =
     (Some \<lparr>Operation_Name = ''op'', Operation_Status = status, Operation_Error = errs\<rparr>, None)"

definition quota_error :: OperationErrorErrors where
  "quota_error =
     \<lparr>OperationErrorErrors_Code = ''QUOTA_EXCEEDED'', OperationErrorErrors_Message = ''quota''\<rparr>"

definition other_error :: OperationErrorErrors where
  "other_error =
     \<lparr>OperationErrorErrors_Code = ''RESOURCE_NOT_READY'', OperationErrorErrors_Message = ''later''\<rparr>"

definition scripted_world :: "(Operation option \<times> error option) list \<Rightarrow> fake_world" where
  "scripted_world script = \<lparr>fw_disk = None, fw_instance = None, fw_polls = script\<rparr>"


text \<open>The simulated provider with a host that never accepts a connection on port 22.\<close>

definition unreachable :: "fake_world env" where
  "unreachable = fake\<lparr>ssh_WaitForTCP := (\<lambda>addr w. (Some (TransportError ''unreachable''), w))\<rparr>"

section \<open>Properties\<close>

subsection \<open>Sequencing and traces\<close>

lemma andThen_Returns: "andThen (Returns a, w, t) k = (case k a w of (r, w', t') \<Rightarrow> (r, w', t @ t'))"
  by (simp add: andThen_def)

lemma andThen_Panics: "andThen (Panics, w, t) k = (Panics, w, t)"
  by (simp add: andThen_def)

lemma andThen_OutOfFuel: "andThen (OutOfFuel, w, t) k = (OutOfFuel, w, t)"
  by (simp add: andThen_def)

lemma run_sel: "outcome_of (r, w, t) = r" "world_of (r, w, t) = w" "calls_of (r, w, t) = t"
  by (simp_all add: outcome_of_def world_of_def calls_of_def)

lemma run_eq: "m = (outcome_of m, world_of m, calls_of m)"
  by (simp add: outcome_of_def world_of_def calls_of_def)

lemma calls_andThen:
  "calls_of (andThen m k) =
     calls_of m @ (case outcome_of m of Returns a \<Rightarrow> calls_of (k a (world_of m)) | _ \<Rightarrow> [])"
  by (cases m) (auto simp: andThen_def outcome_of_def world_of_def calls_of_def split: outcome.splits prod.splits)

lemma outcome_andThen:
  "outcome_of (andThen m k) =
     (case outcome_of m of Returns a \<Rightarrow> outcome_of (k a (world_of m)) | Panics \<Rightarrow> Panics
      | OutOfFuel \<Rightarrow> OutOfFuel)"
  by (cases m) (auto simp: andThen_def outcome_of_def world_of_def calls_of_def split: outcome.splits prod.splits)

lemma world_andThen:
  "world_of (andThen m k) =
     (case outcome_of m of Returns a \<Rightarrow> world_of (k a (world_of m)) | _ \<Rightarrow> world_of m)"
  by (cases m) (auto simp: andThen_def outcome_of_def world_of_def calls_of_def split: outcome.splits prod.splits)

lemma invoke_eq: "f w = (r, w') \<Longrightarrow> invoke c f w = (Returns r, w', [c])"
  by (simp add: invoke_def)

lemma newComputeUtil_ok:
  "newGCEService env (storePath driver) w = (None, w1) \<Longrightarrow>
   \<exists>c. newComputeUtil env driver w = (Returns (Inr c), w1, [NewGCEService (storePath driver)])
     \<and> project c = Project driver \<and> zone c = Zone driver \<and> instanceName c = InstanceName driver"
  by (simp add: newComputeUtil_def do_newGCEService_def invoke_def andThen_def)

lemmas call_defs = do_newGCEService_def do_Disks_Get_def do_Disks_Insert_def do_Disks_Delete_def
  do_Instances_Get_def do_Instances_Insert_def do_Instances_Delete_def do_Instances_SetMetadata_def
  do_ZoneOperations_Get_def do_ssh_GenerateSSHKey_def do_ssh_WaitForTCP_def do_ioutil_ReadFile_def
  do_ssh_Run_def invoke_def

lemma mutating_waitForOp: "filter mutating (calls_of (waitForOp fuel env c name w)) = []"
proof (induction fuel arbitrary: w)
  case 0
  then show ?case by (simp add: run_sel)
next
  case (Suc fuel)
  then show ?case
    by (simp add: calls_andThen call_defs run_sel split: option.splits prod.splits list.splits)
qed

lemma mutating_GetState: "filter mutating (calls_of (GetState env driver w)) = []"
  by (simp add: GetState_def newComputeUtil_def disk_def instance'_def calls_andThen
      outcome_andThen world_andThen call_defs run_sel
      split: option.splits prod.splits sum.splits)

lemma mutating_newComputeUtil: "filter mutating (calls_of (newComputeUtil env driver w)) = []"
  by (simp add: newComputeUtil_def calls_andThen call_defs run_sel split: option.splits prod.splits)

lemma mutating_deleteInstance:
  "filter mutating (calls_of (deleteInstance fuel env c w)) =
     [InstancesDelete (project c) (zone c) (instanceName c)]"
  by (simp add: deleteInstance_def calls_andThen call_defs run_sel mutating_waitForOp
      split: option.splits prod.splits)

lemma mutating_deleteDisk:
  "filter mutating (calls_of (deleteDisk fuel env c w)) =
     [DisksDelete (project c) (zone c) (instanceName c @ ''-disk'')]"
  by (simp add: deleteDisk_def diskName_def calls_andThen call_defs run_sel mutating_waitForOp
      split: option.splits prod.splits)

lemma mutating_createDisk:
  "filter mutating (calls_of (createDisk fuel env c w)) =
     [DisksInsert (project c) (zone c) \<lparr>Disk_Name = instanceName c @ ''-disk''\<rparr> imageName]"
  by (simp add: createDisk_def diskName_def calls_andThen call_defs run_sel mutating_waitForOp
      split: option.splits prod.splits)


subsection \<open>The steps of remove\<close>

lemma Remove_run:
  assumes "newComputeUtil env driver w = (Returns (Inr c), w1, t1)"
    and "GetState env driver w1 = (Returns (s, None), w2, t2)"
    and "(if s = Running then deleteInstance fuel env c w2 else (Returns None, w2, [])) = (Returns r, w3, t3)"
  shows "Remove fuel env driver w =
     (outcome_of (deleteDisk fuel env c w3), world_of (deleteDisk fuel env c w3),
      t1 @ t2 @ t3 @ calls_of (deleteDisk fuel env c w3))"
  using assms
  by (simp add: Remove_def andThen_def outcome_of_def world_of_def calls_of_def split: prod.splits)

lemma Remove_stuck:
  assumes "newComputeUtil env driver w = (Returns (Inr c), w1, t1)"
    and "GetState env driver w1 = (Returns (Running, None), w2, t2)"
    and "deleteInstance fuel env c w2 = (r, w3, t3)" and "r = Panics \<or> r = OutOfFuel"
  shows "Remove fuel env driver w = (r, w3, t1 @ t2 @ t3)"
  using assms
  by (auto simp add: Remove_def andThen_def)

lemma Remove_mutations_Running:
  assumes svc: "newGCEService env (storePath driver) w = (None, w1)"
    and st: "outcome_of (GetState env driver w1) = Returns (Running, None)"
    and ret: "outcome_of (Remove fuel env driver w) = Returns r"
  shows "filter mutating (calls_of (Remove fuel env driver w)) =
          [InstancesDelete (Project driver) (Zone driver) (InstanceName driver),
           DisksDelete (Project driver) (Zone driver) (InstanceName driver @ ''-disk'')]"
proof -
  obtain c where c: "newComputeUtil env driver w = (Returns (Inr c), w1, [NewGCEService (storePath driver)])"
    "project c = Project driver" "zone c = Zone driver" "instanceName c = InstanceName driver"
    using newComputeUtil_ok [OF svc] by blast
  obtain w2 t2 where g: "GetState env driver w1 = (Returns (Running, None), w2, t2)"
    using st by (cases "GetState env driver w1") (simp add: run_sel)
  have t2: "filter mutating t2 = []"
    using mutating_GetState [of env driver w1] g by (simp add: run_sel)
  obtain r3 w3 t3 where di: "deleteInstance fuel env c w2 = (r3, w3, t3)"
    by (cases "deleteInstance fuel env c w2")
  have t3: "filter mutating t3 = [InstancesDelete (Project driver) (Zone driver) (InstanceName driver)]"
    using mutating_deleteInstance [of fuel env c w2] di c by (simp add: run_sel)
  show ?thesis
  proof (cases r3)
    case (Returns x)
    have "Remove fuel env driver w =
       (outcome_of (deleteDisk fuel env c w3), world_of (deleteDisk fuel env c w3),
        [NewGCEService (storePath driver)] @ t2 @ t3 @ calls_of (deleteDisk fuel env c w3))"
      using Remove_run [OF c(1) g, where fuel = fuel and r = x and ?w3.0 = w3 and ?t3.0 = t3] di Returns
      by simp
    then show ?thesis
      using t2 t3 mutating_deleteDisk [of fuel env c w3] c by (simp add: run_sel)
  next
    case Panics
    then have "Remove fuel env driver w = (Panics, w3, [NewGCEService (storePath driver)] @ t2 @ t3)"
      using Remove_stuck [OF c(1) g di] by simp
    then show ?thesis using ret by (simp add: run_sel)
  next
    case OutOfFuel
    then have "Remove fuel env driver w = (OutOfFuel, w3, [NewGCEService (storePath driver)] @ t2 @ t3)"
      using Remove_stuck [OF c(1) g di] by simp
    then show ?thesis using ret by (simp add: run_sel)
  qed
qed

lemma Remove_mutations_not_Running:
  assumes svc: "newGCEService env (storePath driver) w = (None, w1)"
    and st: "outcome_of (GetState env driver w1) = Returns (s, None)" and s: "s \<noteq> Running"
  shows "filter mutating (calls_of (Remove fuel env driver w)) =
          [DisksDelete (Project driver) (Zone driver) (InstanceName driver @ ''-disk'')]"
proof -
  obtain c where c: "newComputeUtil env driver w = (Returns (Inr c), w1, [NewGCEService (storePath driver)])"
    "project c = Project driver" "zone c = Zone driver" "instanceName c = InstanceName driver"
    using newComputeUtil_ok [OF svc] by blast
  obtain w2 t2 where g: "GetState env driver w1 = (Returns (s, None), w2, t2)"
    using st by (cases "GetState env driver w1") (simp add: run_sel)
  have t2: "filter mutating t2 = []"
    using mutating_GetState [of env driver w1] g by (simp add: run_sel)
  have "Remove fuel env driver w =
       (outcome_of (deleteDisk fuel env c w2), world_of (deleteDisk fuel env c w2),
        [NewGCEService (storePath driver)] @ t2 @ [] @ calls_of (deleteDisk fuel env c w2))"
    using Remove_run [OF c(1) g, where fuel = fuel and r = None and ?w3.0 = w2 and ?t3.0 = "[]"] s
    by simp
  then show ?thesis
    using t2 mutating_deleteDisk [of fuel env c w2] c by (simp add: run_sel)
qed

subsection \<open>Facts about the simulated provider\<close>

lemma fake_simps:
  "newGCEService fake path w = (None, w)"
  "Disks_Get fake p z n w =
     (case fw_disk w of
        None \<Rightarrow> ((None, Some not_found), w)
      | Some d \<Rightarrow> if Disk_Name d = n then ((Some d, None), w) else ((None, Some not_found), w))"
  "Disks_Insert fake p z d src w = ((Some (pending_op ''insert-disk''), None), w\<lparr>fw_disk := Some d\<rparr>)"
  "Disks_Delete fake p z n w =
     (case fw_disk w of
        None \<Rightarrow> ((None, Some not_found), w)
      | Some d \<Rightarrow>
          if Disk_Name d \<noteq> n then ((None, Some not_found), w)
          else if in_use p z n (fw_instance w) then ((None, Some resource_in_use), w)
          else ((Some (pending_op ''delete-disk''), None), w\<lparr>fw_disk := None\<rparr>))"
  "Instances_Get fake p z n w =
     (case fw_instance w of
        None \<Rightarrow> ((None, Some not_found), w)
      | Some i \<Rightarrow> if Instance_Name i = n then ((Some i, None), w) else ((None, Some not_found), w))"
  "Instances_Insert fake p z i w =
     ((Some (pending_op ''insert-instance''), None),
      w\<lparr>fw_instance := Some (i\<lparr>Instance_Status := ''RUNNING'',
           Instance_NetworkInterfaces :=
             [\<lparr>NetworkInterface_AccessConfigs =
                 [\<lparr>AccessConfig_Type = ''ONE_TO_ONE_NAT'', AccessConfig_NatIP = ''203.0.113.7''\<rparr>],
               NetworkInterface_Network = ''default''\<rparr>],
           Instance_Metadata := Some \<lparr>Metadata_Fingerprint = ''fp0'', Metadata_Items = []\<rparr>\<rparr>)\<rparr>)"
  "Instances_Delete fake p z n w =
     (case fw_instance w of
        None \<Rightarrow> ((None, Some not_found), w)
      | Some i \<Rightarrow> if Instance_Name i = n
                  then ((Some (pending_op ''delete-instance''), None), w\<lparr>fw_instance := None\<rparr>)
                  else ((None, Some not_found), w))"
  "Instances_SetMetadata fake p z n m w = ((Some (pending_op ''set-metadata''), None), w)"
  "ZoneOperations_Get fake p z n w =
     (case fw_polls w of
        [] \<Rightarrow> ((Some (done_op n), None), w)
      | r # rs \<Rightarrow> (r, w\<lparr>fw_polls := rs\<rparr>))"
  "ssh_GenerateSSHKey fake path w = (None, w)"
  "ssh_WaitForTCP fake addr w = (None, w)"
  "ioutil_ReadFile fake path w = ((''ssh-rsa AAAA'', None), w)"
  "ssh_Run fake ip port user key command w = (None, w)"
  by (simp_all add: fake_def)

lemma fake_GetState:
  "GetState fake d w =
     (Returns
        ((case fst (fst (Instances_Get fake (Project d) (Zone d) (InstanceName d) w)) of
            None \<Rightarrow> (case fst (fst (Disks_Get fake (Project d) (Zone d) (InstanceName d @ ''-disk'') w)) of
                        None \<Rightarrow> None_State | Some _ \<Rightarrow> Stopped)
          | Some i \<Rightarrow>
              if Instance_Status i = ''PROVISIONING'' \<or> Instance_Status i = ''STAGING'' then Starting
              else if Instance_Status i = ''RUNNING'' then Running
              else if Instance_Status i = ''STOPPING'' \<or> Instance_Status i = ''STOPPED''
                      \<or> Instance_Status i = ''TERMINATED'' then Stopped
              else None_State), None),
      w,
      [NewGCEService (storePath d), DisksGet (Project d) (Zone d) (InstanceName d @ ''-disk''),
       InstancesGet (Project d) (Zone d) (InstanceName d)])"
  by (auto simp add: GetState_def newComputeUtil_def disk_def instance'_def diskName_def call_defs
      andThen_def fake_def split: option.splits)

lemma fake_host_util:
  "newComputeUtil fake host w = (Returns (Inr host_util), w, [NewGCEService ''/store''])"
  by (simp add: newComputeUtil_def call_defs andThen_def fake_simps host_def host_util_def apiURL_def)

lemmas host_defs = host_def host_util_def host_world_def host_instance_def pending_op_def
  done_op_def not_found_def in_use_def apiURL_def

lemma fake_host_GetState:
  "GetState fake host (host_world b None) =
     (Returns (if b then Stopped else None_State, None), host_world b None,
      [NewGCEService ''/store'', DisksGet ''proj'' ''us-central1-a'' ''docker-host-disk'',
       InstancesGet ''proj'' ''us-central1-a'' ''docker-host''])"
  "GetState fake host (host_world b (Some ''RUNNING'')) =
     (Returns (Running, None), host_world b (Some ''RUNNING''),
      [NewGCEService ''/store'', DisksGet ''proj'' ''us-central1-a'' ''docker-host-disk'',
       InstancesGet ''proj'' ''us-central1-a'' ''docker-host''])"
  "GetState fake host (host_world b (Some ''TERMINATED'')) =
     (Returns (Stopped, None), host_world b (Some ''TERMINATED''),
      [NewGCEService ''/store'', DisksGet ''proj'' ''us-central1-a'' ''docker-host-disk'',
       InstancesGet ''proj'' ''us-central1-a'' ''docker-host''])"
  by (simp_all add: fake_GetState fake_simps host_defs)

lemma Remove_terminated_run:
  "Remove (Suc 0) fake host (host_world True (Some ''TERMINATED'')) =
     (Returns None, host_world False (Some ''TERMINATED''),
      [NewGCEService ''/store'', NewGCEService ''/store'',
       DisksGet ''proj'' ''us-central1-a'' ''docker-host-disk'',
       InstancesGet ''proj'' ''us-central1-a'' ''docker-host'',
       DisksDelete ''proj'' ''us-central1-a'' ''docker-host-disk'',
       ZoneOperationsGet ''proj'' ''us-central1-a'' ''delete-disk''])"
  by (simp add: Remove_def fake_host_util fake_host_GetState andThen_def)
    (simp add: deleteInstance_def deleteDisk_def diskName_def andThen_def call_defs fake_simps host_defs)




subsection \<open>The parts of createInstance and their traces\<close>

lemma createInstance_phases:
  "createInstance fuel env c pub key mt w =
     andThen (disk env c w)
       (\<lambda>(disk, _) w.
          andThen (case disk of None \<Rightarrow> createDisk fuel env c w | Some _ \<Rightarrow> (Returns None, w, []))
            (\<lambda>err w. case err of
               Some e \<Rightarrow> (Returns (Some e), w, [])
             | None \<Rightarrow> insertInstance fuel env c pub key mt w))"
  unfolding createInstance_def insertInstance_def setupInstance_def pushKeyAndConfigure_def
    newInstance_def
  by (rule refl)



lemma calls_invoke: "calls_of (invoke c f w) = [c]"
  by (simp add: invoke_def calls_of_def split: prod.splits)

lemma filter_waitForOp:
  "(\<And>p z n. \<not> P (ZoneOperationsGet p z n)) \<Longrightarrow>
     filter P (calls_of (waitForOp fuel env c name w)) = []"
proof (induction fuel arbitrary: w)
  case 0
  then show ?case by (simp add: run_sel)
next
  case (Suc fuel)
  then show ?case
    by (simp add: calls_andThen call_defs run_sel split: option.splits prod.splits list.splits)
qed

lemma filter_executeCommands:
  "(\<And>ip port user key command. \<not> P (RunSSHCommand ip port user key command)) \<Longrightarrow>
     filter P (calls_of (executeCommands env c commands ip' key' w)) = []"
proof (induction commands arbitrary: w)
  case Nil
  then show ?case by (simp add: run_sel)
next
  case (Cons command commands)
  then show ?case
    by (simp add: calls_andThen call_defs run_sel split: option.splits prod.splits)
qed


lemma filter_configureInstance:
  assumes "\<And>ip port user key command. \<not> P (RunSSHCommand ip port user key command)"
  shows "filter P (calls_of (configureInstance env c ip' key' w)) = []"
  unfolding configureInstance_def by (rule filter_executeCommands) (rule assms)

lemma filter_updateDocker:
  assumes "\<And>ip port user key command. \<not> P (RunSSHCommand ip port user key command)"
  shows "filter P (calls_of (updateDocker env c ip' key' w)) = []"
  unfolding updateDocker_def by (rule filter_executeCommands) (rule assms)

lemma filter_createDisk:
  "(\<And>p z n. \<not> P (ZoneOperationsGet p z n)) \<Longrightarrow>
     filter P (calls_of (createDisk fuel env c w)) =
       filter P [DisksInsert (project c) (zone c) \<lparr>Disk_Name = instanceName c @ ''-disk''\<rparr> imageName]"
  by (simp add: createDisk_def diskName_def calls_andThen do_Disks_Insert_def calls_invoke run_sel
      filter_waitForOp split: option.splits prod.splits outcome.splits)




lemma filter_pushKeyAndConfigure:
  assumes "\<And>p z n. \<not> P (ZoneOperationsGet p z n)"
    and "\<And>ip port user key command. \<not> P (RunSSHCommand ip port user key command)"
    and "\<And>path. \<not> P (ReadFile path)"
    and "\<And>p z n m. \<not> P (InstancesSetMetadata p z n m)"
  shows "filter P (calls_of (pushKeyAndConfigure fuel env c instance ip pub key w)) = []"
  using assms
  by (simp add: pushKeyAndConfigure_def calls_andThen
      do_ioutil_ReadFile_def do_Instances_SetMetadata_def calls_invoke run_sel
      filter_waitForOp filter_configureInstance filter_updateDocker
      split: option.splits prod.splits outcome.splits)

lemma filter_setupInstance:
  assumes "\<And>p z n. \<not> P (ZoneOperationsGet p z n)"
    and "\<And>ip port user key command. \<not> P (RunSSHCommand ip port user key command)"
    and "\<And>path. \<not> P (ReadFile path)"
    and "\<And>p z n m. \<not> P (InstancesSetMetadata p z n m)"
    and "\<And>p z n. \<not> P (InstancesGet p z n)"
    and "\<And>addr. \<not> P (WaitForTCP addr)"
  shows "filter P (calls_of (setupInstance fuel env c pub key w)) = []"
  using assms
  by (simp add: setupInstance_def instance'_def waitForSSH_def calls_andThen
      do_Instances_Get_def do_ssh_WaitForTCP_def calls_invoke run_sel
      filter_pushKeyAndConfigure
      split: option.splits prod.splits outcome.splits list.splits)

lemma filter_insertInstance:
  assumes "\<And>p z n. \<not> P (ZoneOperationsGet p z n)"
    and "\<And>ip port user key command. \<not> P (RunSSHCommand ip port user key command)"
    and "\<And>path. \<not> P (ReadFile path)"
    and "\<And>p z n m. \<not> P (InstancesSetMetadata p z n m)"
    and "\<And>p z n. \<not> P (InstancesGet p z n)"
    and "\<And>addr. \<not> P (WaitForTCP addr)"
  shows "filter P (calls_of (insertInstance fuel env c pub key mt w)) =
           filter P [InstancesInsert (project c) (zone c) (newInstance c mt)]"
  using assms
  by (simp add: insertInstance_def calls_andThen do_Instances_Insert_def calls_invoke run_sel
      filter_waitForOp filter_setupInstance
      split: option.splits prod.splits outcome.splits)

lemma insertInstance_first:
  "\<exists>rest. calls_of (insertInstance fuel env c pub key mt w) =
     InstancesInsert (project c) (zone c) (newInstance c mt) # rest"
  by (simp add: insertInstance_def calls_andThen do_Instances_Insert_def calls_invoke)

lemma createDisk_first:
  "\<exists>rest. calls_of (createDisk fuel env c w) =
     DisksInsert (project c) (zone c) \<lparr>Disk_Name = instanceName c @ ''-disk''\<rparr> imageName # rest"
  by (simp add: createDisk_def diskName_def calls_andThen do_Disks_Insert_def calls_invoke)





lemma createInstance_disk_present:
  assumes "Disks_Get env (project c) (zone c) (instanceName c @ ''-disk'') w = ((Some d, derr), w1)"
  shows "createInstance fuel env c pub key mt w =
     (outcome_of (insertInstance fuel env c pub key mt w1),
      world_of (insertInstance fuel env c pub key mt w1),
      DisksGet (project c) (zone c) (instanceName c @ ''-disk'')
        # calls_of (insertInstance fuel env c pub key mt w1))"
  using assms
  by (simp add: createInstance_phases disk_def diskName_def do_Disks_Get_def invoke_def andThen_def
      outcome_of_def world_of_def calls_of_def split: prod.splits)

lemma createInstance_disk_absent:
  assumes "Disks_Get env (project c) (zone c) (instanceName c @ ''-disk'') w = ((None, derr), w1)"
  shows "outcome_of (createDisk fuel env c w1) = Returns None \<Longrightarrow>
     createInstance fuel env c pub key mt w =
     (outcome_of (insertInstance fuel env c pub key mt (world_of (createDisk fuel env c w1))),
      world_of (insertInstance fuel env c pub key mt (world_of (createDisk fuel env c w1))),
      DisksGet (project c) (zone c) (instanceName c @ ''-disk'')
        # calls_of (createDisk fuel env c w1)
        @ calls_of (insertInstance fuel env c pub key mt (world_of (createDisk fuel env c w1))))"
    and "outcome_of (createDisk fuel env c w1) \<noteq> Returns None \<Longrightarrow>
     createInstance fuel env c pub key mt w =
     (outcome_of (createDisk fuel env c w1), world_of (createDisk fuel env c w1),
      DisksGet (project c) (zone c) (instanceName c @ ''-disk'') # calls_of (createDisk fuel env c w1))"
  using assms
  by (auto simp add: createInstance_phases disk_def diskName_def do_Disks_Get_def invoke_def andThen_def
      outcome_of_def world_of_def calls_of_def split: prod.splits outcome.splits option.splits)

lemma newInstance_Name: "Instance_Name (newInstance c mt) = instanceName c"
  by (simp add: newInstance_def)


lemma waitForOp_env:
  "waitForOp fuel (env\<lparr>ssh_WaitForTCP := f\<rparr>) c name w = waitForOp fuel env c name w"
  by (induction fuel arbitrary: w) (simp_all add: call_defs cong: option.case_cong prod.case_cong list.case_cong if_cong)

lemma executeCommands_env:
  "executeCommands (env\<lparr>ssh_WaitForTCP := f\<rparr>) c commands ip key w
     = executeCommands env c commands ip key w"
  by (induction commands arbitrary: w) (simp_all add: call_defs cong: option.case_cong prod.case_cong list.case_cong if_cong)

lemma createDisk_env:
  "createDisk fuel (env\<lparr>ssh_WaitForTCP := f\<rparr>) c w = createDisk fuel env c w"
  by (simp add: createDisk_def call_defs waitForOp_env cong: option.case_cong prod.case_cong list.case_cong if_cong)

lemma pushKeyAndConfigure_env:
  "pushKeyAndConfigure fuel (env\<lparr>ssh_WaitForTCP := f\<rparr>) c instance ip pub key w
     = pushKeyAndConfigure fuel env c instance ip pub key w"
  by (simp add: pushKeyAndConfigure_def configureInstance_def updateDocker_def
      do_ioutil_ReadFile_def do_Instances_SetMetadata_def waitForOp_env executeCommands_env
      del: executeCommands.simps cong: option.case_cong prod.case_cong list.case_cong if_cong)

lemma waitForSSH_discarded:
  "andThen (waitForSSH (env\<lparr>ssh_WaitForTCP := (\<lambda>addr w. (r addr w, snd (ssh_WaitForTCP env addr w)))\<rparr>) c ip w)
       (\<lambda>_. k)
     = andThen (waitForSSH env c ip w) (\<lambda>_. k)"
  by (simp add: waitForSSH_def do_ssh_WaitForTCP_def invoke_def andThen_def split: prod.splits)

lemma setupInstance_env:
  "setupInstance fuel (env\<lparr>ssh_WaitForTCP := (\<lambda>addr w. (r addr w, snd (ssh_WaitForTCP env addr w)))\<rparr>) c pub key w
     = setupInstance fuel env c pub key w"
  by (simp add: setupInstance_def instance'_def do_Instances_Get_def pushKeyAndConfigure_env
      waitForSSH_discarded cong: option.case_cong prod.case_cong list.case_cong if_cong)

lemma insertInstance_env:
  "insertInstance fuel (env\<lparr>ssh_WaitForTCP := (\<lambda>addr w. (r addr w, snd (ssh_WaitForTCP env addr w)))\<rparr>) c pub key mt w
     = insertInstance fuel env c pub key mt w"
  by (simp add: insertInstance_def do_Instances_Insert_def waitForOp_env setupInstance_env cong: option.case_cong prod.case_cong list.case_cong if_cong)

lemma createInstance_env:
  "createInstance fuel (env\<lparr>ssh_WaitForTCP := (\<lambda>addr w. (r addr w, snd (ssh_WaitForTCP env addr w)))\<rparr>) c pub key mt w
     = createInstance fuel env c pub key mt w"
  by (simp add: createInstance_phases disk_def do_Disks_Get_def createDisk_env insertInstance_env cong: option.case_cong prod.case_cong list.case_cong if_cong)

lemma pushKeyAndConfigure_order:
  "filter (\<lambda>x. is_WaitForTCP x \<or> is_ReadFile x \<or> is_InstancesSetMetadata x)
      (calls_of (pushKeyAndConfigure fuel env c instance ip pub key w)) = [ReadFile pub]
   \<or> (\<exists>m. filter (\<lambda>x. is_WaitForTCP x \<or> is_ReadFile x \<or> is_InstancesSetMetadata x)
      (calls_of (pushKeyAndConfigure fuel env c instance ip pub key w)) =
        [ReadFile pub, InstancesSetMetadata (project c) (zone c) (instanceName c) m])"
  by (simp add: pushKeyAndConfigure_def calls_andThen
      do_ioutil_ReadFile_def do_Instances_SetMetadata_def calls_invoke run_sel
      filter_waitForOp filter_configureInstance filter_updateDocker
      split: option.splits prod.splits outcome.splits)

lemma outcome_invoke: "outcome_of (invoke c f w) = Returns (fst (f w))"
  by (simp add: invoke_def outcome_of_def split: prod.splits)

lemma world_invoke: "world_of (invoke c f w) = snd (f w)"
  by (simp add: invoke_def world_of_def split: prod.splits)

lemma setupInstance_calls:
  "calls_of (setupInstance fuel env c pub key w) = [InstancesGet (project c) (zone c) (instanceName c)]
   \<or> (\<exists>instance ip w'. calls_of (setupInstance fuel env c pub key w) =
         [InstancesGet (project c) (zone c) (instanceName c), WaitForTCP (ip @ '':22'')]
           @ calls_of (pushKeyAndConfigure fuel env c instance ip pub key w'))"
  by (simp add: setupInstance_def instance'_def waitForSSH_def calls_andThen
      do_Instances_Get_def do_ssh_WaitForTCP_def calls_invoke outcome_invoke world_invoke run_sel
      split: option.splits prod.splits list.splits) blast

lemma setupInstance_order:
  "filter (\<lambda>x. is_WaitForTCP x \<or> is_ReadFile x \<or> is_InstancesSetMetadata x)
      (calls_of (setupInstance fuel env c pub key w)) = []
   \<or> (\<exists>addr. filter (\<lambda>x. is_WaitForTCP x \<or> is_ReadFile x \<or> is_InstancesSetMetadata x)
      (calls_of (setupInstance fuel env c pub key w)) = [WaitForTCP addr, ReadFile pub])
   \<or> (\<exists>addr m. filter (\<lambda>x. is_WaitForTCP x \<or> is_ReadFile x \<or> is_InstancesSetMetadata x)
      (calls_of (setupInstance fuel env c pub key w)) =
        [WaitForTCP addr, ReadFile pub, InstancesSetMetadata (project c) (zone c) (instanceName c) m])"
proof -
  let ?P = "\<lambda>x. is_WaitForTCP x \<or> is_ReadFile x \<or> is_InstancesSetMetadata x"
  from setupInstance_calls [of fuel env c pub key w] show ?thesis
  proof (elim disjE exE)
    assume "calls_of (setupInstance fuel env c pub key w) = [InstancesGet (project c) (zone c) (instanceName c)]"
    then show ?thesis by simp
  next
    fix inst ip w'
    assume run: "calls_of (setupInstance fuel env c pub key w) =
         [InstancesGet (project c) (zone c) (instanceName c), WaitForTCP (ip @ '':22'')]
           @ calls_of (pushKeyAndConfigure fuel env c inst ip pub key w')"
    from pushKeyAndConfigure_order [of fuel env c inst ip pub key w'] show ?thesis
    proof (elim disjE exE)
      assume "filter ?P (calls_of (pushKeyAndConfigure fuel env c inst ip pub key w')) = [ReadFile pub]"
      then have "filter ?P (calls_of (setupInstance fuel env c pub key w)) = [WaitForTCP (ip @ '':22''), ReadFile pub]"
        by (simp add: run)
      then show ?thesis by blast
    next
      fix m
      assume "filter ?P (calls_of (pushKeyAndConfigure fuel env c inst ip pub key w')) =
        [ReadFile pub, InstancesSetMetadata (project c) (zone c) (instanceName c) m]"
      then have "filter ?P (calls_of (setupInstance fuel env c pub key w)) =
        [WaitForTCP (ip @ '':22''), ReadFile pub, InstancesSetMetadata (project c) (zone c) (instanceName c) m]"
        by (simp add: run)
      then show ?thesis by blast
    qed
  qed
qed

lemma insertInstance_order:
  "filter (\<lambda>x. is_WaitForTCP x \<or> is_ReadFile x \<or> is_InstancesSetMetadata x)
      (calls_of (insertInstance fuel env c pub key mt w)) = []
   \<or> (\<exists>w'. filter (\<lambda>x. is_WaitForTCP x \<or> is_ReadFile x \<or> is_InstancesSetMetadata x)
      (calls_of (insertInstance fuel env c pub key mt w)) =
       filter (\<lambda>x. is_WaitForTCP x \<or> is_ReadFile x \<or> is_InstancesSetMetadata x)
         (calls_of (setupInstance fuel env c pub key w')))"
  by (simp add: insertInstance_def calls_andThen do_Instances_Insert_def calls_invoke run_sel
      filter_waitForOp split: option.splits prod.splits outcome.splits) blast

lemma createInstance_order_aux:
  "filter (\<lambda>x. is_WaitForTCP x \<or> is_ReadFile x \<or> is_InstancesSetMetadata x)
      (calls_of (createInstance fuel env c pub key mt w)) = []
   \<or> (\<exists>w'. filter (\<lambda>x. is_WaitForTCP x \<or> is_ReadFile x \<or> is_InstancesSetMetadata x)
      (calls_of (createInstance fuel env c pub key mt w)) =
       filter (\<lambda>x. is_WaitForTCP x \<or> is_ReadFile x \<or> is_InstancesSetMetadata x)
         (calls_of (insertInstance fuel env c pub key mt w')))"
  by (simp add: createInstance_phases disk_def calls_andThen do_Disks_Get_def calls_invoke run_sel
      filter_createDisk split: option.splits prod.splits outcome.splits) blast

subsection \<open>Runs on the simulated provider\<close>

lemma waitForOp_fake_done:
  "fw_polls w = [] \<Longrightarrow>
     waitForOp (Suc fuel) fake c name w = (Returns None, w, [ZoneOperationsGet (project c) (zone c) name])"
  by (simp add: andThen_def call_defs fake_simps done_op_def)

lemma executeCommands_fake:
  "executeCommands fake c commands ip key w =
     (Returns None, w, map (RunSSHCommand ip 22 (userName c) key) commands)"
  by (induction commands arbitrary: w) (simp_all add: andThen_def call_defs fake_simps)

lemma fake_pushKeyAndConfigure:
  assumes "fw_polls w = []" and "Instance_Metadata instance = Some md"
  shows "outcome_of (pushKeyAndConfigure (Suc fuel) fake c instance ip pub key w) = Returns None"
    and "world_of (pushKeyAndConfigure (Suc fuel) fake c instance ip pub key w) = w"
    and "filter mutating (calls_of (pushKeyAndConfigure (Suc fuel) fake c instance ip pub key w)) =
       [InstancesSetMetadata (project c) (zone c) (instanceName c)
          \<lparr>Metadata_Fingerprint = Metadata_Fingerprint md,
           Metadata_Items =
             [\<lparr>MetadataItems_Key = ''sshKeys'',
               MetadataItems_Value = userName c @ '':'' @ ''ssh-rsa AAAA'' @ [CHR 0x0A]\<rparr>]\<rparr>]"
  using assms
  by (simp_all add: pushKeyAndConfigure_def configureInstance_def updateDocker_def
      executeCommands_fake andThen_def call_defs fake_simps pending_op_def done_op_def run_sel
      del: executeCommands.simps)

lemma fake_insertInstance:
  assumes "fw_polls w = []"
  shows "outcome_of (insertInstance (Suc fuel) fake host_util pub key mt w) = Returns None"
    and "fw_disk (world_of (insertInstance (Suc fuel) fake host_util pub key mt w)) = fw_disk w"
    and "fw_polls (world_of (insertInstance (Suc fuel) fake host_util pub key mt w)) = []"
    and "filter mutating (calls_of (insertInstance (Suc fuel) fake host_util pub key mt w)) =
       [InstancesInsert ''proj'' ''us-central1-a'' (newInstance host_util mt),
        InstancesSetMetadata ''proj'' ''us-central1-a'' ''docker-host''
          \<lparr>Metadata_Fingerprint = ''fp0'',
           Metadata_Items =
             [\<lparr>MetadataItems_Key = ''sshKeys'',
               MetadataItems_Value = ''user:ssh-rsa AAAA'' @ [CHR 0x0A]\<rparr>]\<rparr>]"
  using assms
  by (simp_all add: insertInstance_def setupInstance_def instance'_def waitForSSH_def
      outcome_andThen world_andThen calls_andThen fake_pushKeyAndConfigure
      call_defs fake_simps pending_op_def done_op_def run_sel newInstance_Name host_util_def)

lemma fake_pushKeyAndConfigure_order:
  assumes "fw_polls w = []" and "Instance_Metadata inst = Some md"
  shows "filter (\<lambda>x. is_WaitForTCP x \<or> is_ReadFile x \<or> is_InstancesSetMetadata x)
       (calls_of (pushKeyAndConfigure (Suc fuel) fake c inst ip pub key w)) =
       [ReadFile pub,
        InstancesSetMetadata (project c) (zone c) (instanceName c)
          \<lparr>Metadata_Fingerprint = Metadata_Fingerprint md,
           Metadata_Items =
             [\<lparr>MetadataItems_Key = ''sshKeys'',
               MetadataItems_Value = userName c @ '':'' @ ''ssh-rsa AAAA'' @ [CHR 0x0A]\<rparr>]\<rparr>]"
  using assms
  by (simp add: pushKeyAndConfigure_def calls_andThen outcome_andThen world_andThen
      do_ioutil_ReadFile_def do_Instances_SetMetadata_def calls_invoke outcome_invoke world_invoke
      waitForOp_fake_done filter_configureInstance filter_updateDocker
      fake_simps pending_op_def run_sel del: waitForOp.simps
      split: outcome.splits option.splits)

lemma fake_insertInstance_order:
  assumes "fw_polls w = []"
  shows "filter (\<lambda>x. is_WaitForTCP x \<or> is_ReadFile x \<or> is_InstancesSetMetadata x)
       (calls_of (insertInstance (Suc fuel) fake host_util pub key mt w)) =
       [WaitForTCP ''203.0.113.7:22'', ReadFile pub,
        InstancesSetMetadata ''proj'' ''us-central1-a'' ''docker-host''
          \<lparr>Metadata_Fingerprint = ''fp0'',
           Metadata_Items =
             [\<lparr>MetadataItems_Key = ''sshKeys'',
               MetadataItems_Value = ''user:ssh-rsa AAAA'' @ [CHR 0x0A]\<rparr>]\<rparr>]"
  using assms
  by (simp add: insertInstance_def setupInstance_def instance'_def waitForSSH_def
      outcome_andThen world_andThen calls_andThen fake_pushKeyAndConfigure_order
      call_defs fake_simps pending_op_def done_op_def run_sel newInstance_Name host_util_def)

lemma host_disk_lookup:
  "Disks_Get fake (project host_util) (zone host_util) (instanceName host_util @ ''-disk'')
     (host_world True s) = ((Some \<lparr>Disk_Name = ''docker-host-disk''\<rparr>, None), host_world True s)"
  "Disks_Get fake (project host_util) (zone host_util) (instanceName host_util @ ''-disk'')
     (host_world False s) = ((None, Some not_found), host_world False s)"
  by (simp_all add: fake_simps host_util_def host_world_def)

lemma host_createDisk:
  "createDisk (Suc 0) fake host_util (host_world False None) =
     (Returns None, host_world True None,
      [DisksInsert ''proj'' ''us-central1-a'' \<lparr>Disk_Name = ''docker-host-disk''\<rparr> imageName,
       ZoneOperationsGet ''proj'' ''us-central1-a'' ''insert-disk''])"
  by (simp add: createDisk_def diskName_def andThen_def call_defs fake_simps host_defs)

lemma host_world_polls: "fw_polls (host_world b s) = []"
  by (simp add: host_world_def)


lemma host_createInstance_ok:
  "outcome_of (createInstance (Suc 0) fake host_util pub key mt (host_world True None)) = Returns None"
  using createInstance_disk_present [OF host_disk_lookup(1) [of None],
        where fuel = "Suc 0" and pub = pub and key = key and mt = mt]
    fake_insertInstance(1) [OF host_world_polls [of True None],
        where fuel = 0 and pub = pub and key = key and mt = mt]
  by (simp add: run_sel)


subsection \<open>State Deriver\<close>

text \<open>
  C1. For every combination of disk presence, instance presence and instance status,
  \<^verbatim>\<open>GetState\<close> returns the state of the table: None when neither exists; Stopped when
  only the disk exists; with an instance, Starting for PROVISIONING and STAGING, Running
  for RUNNING, Stopped for STOPPING, STOPPED and TERMINATED, and None for any other
  status string, whatever the disk lookup gave. It never fails once the service handle
  is obtained (the error it returns is nil), and it issues the two lookups only.
\<close>

theorem GetState_table:
  assumes "newGCEService env (storePath driver) w = (None, w1)"
    and "Disks_Get env (Project driver) (Zone driver) (InstanceName driver @ ''-disk'') w1 = ((d, derr), w2)"
    and "Instances_Get env (Project driver) (Zone driver) (InstanceName driver) w2 = ((i, ierr), w3)"
  shows "(d = None \<and> i = None \<longrightarrow> outcome_of (GetState env driver w) = Returns (None_State, None))
    \<and> (d \<noteq> None \<and> i = None \<longrightarrow> outcome_of (GetState env driver w) = Returns (Stopped, None))
    \<and> (\<forall>inst. i = Some inst \<longrightarrow>
         (Instance_Status inst = ''PROVISIONING'' \<or> Instance_Status inst = ''STAGING'' \<longrightarrow>
            outcome_of (GetState env driver w) = Returns (Starting, None))
       \<and> (Instance_Status inst = ''RUNNING'' \<longrightarrow>
            outcome_of (GetState env driver w) = Returns (Running, None))
       \<and> (Instance_Status inst = ''STOPPING'' \<or> Instance_Status inst = ''STOPPED''
            \<or> Instance_Status inst = ''TERMINATED'' \<longrightarrow>
            outcome_of (GetState env driver w) = Returns (Stopped, None))
       \<and> (Instance_Status inst \<notin> {''PROVISIONING'', ''STAGING'', ''RUNNING'', ''STOPPING'',
              ''STOPPED'', ''TERMINATED''} \<longrightarrow>
            outcome_of (GetState env driver w) = Returns (None_State, None)))
    \<and> world_of (GetState env driver w) = w3
    \<and> calls_of (GetState env driver w) =
        [NewGCEService (storePath driver),
         DisksGet (Project driver) (Zone driver) (InstanceName driver @ ''-disk''),
         InstancesGet (Project driver) (Zone driver) (InstanceName driver)]"
  using assms
  by (simp add: GetState_def newComputeUtil_def do_newGCEService_def disk_def instance'_def
      do_Disks_Get_def do_Instances_Get_def diskName_def invoke_def andThen_def run_sel
      split: option.splits)


theorem GetState_table_witness:
  "outcome_of (GetState fake host (host_world False None)) = Returns (None_State, None)
   \<and> outcome_of (GetState fake host (host_world True None)) = Returns (Stopped, None)
   \<and> outcome_of (GetState fake host (host_world True (Some ''STAGING''))) = Returns (Starting, None)
   \<and> outcome_of (GetState fake host (host_world False (Some ''RUNNING''))) = Returns (Running, None)
   \<and> outcome_of (GetState fake host (host_world True (Some ''TERMINATED''))) = Returns (Stopped, None)
   \<and> outcome_of (GetState fake host (host_world True (Some ''SUSPENDED''))) = Returns (None_State, None)"
proof -
  have svc: "\<And>w. newGCEService fake (storePath host) w = (None, w)"
    by (simp add: fake_def)
  have d0: "\<And>s. Disks_Get fake (Project host) (Zone host) (InstanceName host @ ''-disk'')
      (host_world False s) = ((None, Some not_found), host_world False s)"
    by (simp add: fake_def host_def host_world_def)
  have d1: "\<And>s. Disks_Get fake (Project host) (Zone host) (InstanceName host @ ''-disk'')
      (host_world True s) = ((Some \<lparr>Disk_Name = ''docker-host-disk''\<rparr>, None), host_world True s)"
    by (simp add: fake_def host_def host_world_def)
  have i0: "\<And>b. Instances_Get fake (Project host) (Zone host) (InstanceName host)
      (host_world b None) = ((None, Some not_found), host_world b None)"
    by (simp add: fake_def host_def host_world_def)
  have i1: "\<And>b s. Instances_Get fake (Project host) (Zone host) (InstanceName host)
      (host_world b (Some s)) = ((Some (host_instance s), None), host_world b (Some s))"
    by (simp add: fake_def host_def host_world_def host_instance_def)
  show ?thesis
    using GetState_table [OF svc d0 i0] GetState_table [OF svc d1 i0]
      GetState_table [OF svc d1 i1, of "''STAGING''"] GetState_table [OF svc d0 i1, of "''RUNNING''"]
      GetState_table [OF svc d1 i1, of "''TERMINATED''"] GetState_table [OF svc d1 i1, of "''SUSPENDED''"]
    by (simp add: host_instance_def)
qed

subsection \<open>Driver Facade: create\<close>

text \<open>
  C2. A \<^verbatim>\<open>Create\<close> call made while an instance with the configured name exists
  fails with the error "Instance ... already exists." and issues no mutating call: the
  trace holds the service factory call and the instance lookup only.
\<close>

theorem Create_existing_instance:
  assumes "newGCEService env (storePath driver) w = (None, w1)"
    and "Instances_Get env (Project driver) (Zone driver) (InstanceName driver) w1 = ((Some i, ierr), w2)"
  shows "Create fuel env driver w =
      (Returns (Some (InstanceAlreadyExists (InstanceName driver))), w2,
       [NewGCEService (storePath driver),
        InstancesGet (Project driver) (Zone driver) (InstanceName driver)])
    \<and> filter mutating (calls_of (Create fuel env driver w)) = []"
  using assms
  by (simp add: Create_def newComputeUtil_def instance'_def call_defs andThen_def run_sel)

theorem Create_existing_instance_witness:
  "newGCEService fake (storePath host) (host_world True (Some ''RUNNING''))
     = (None, host_world True (Some ''RUNNING''))
   \<and> Instances_Get fake (Project host) (Zone host) (InstanceName host)
        (host_world True (Some ''RUNNING''))
     = ((Some (host_instance ''RUNNING''), None), host_world True (Some ''RUNNING''))
   \<and> Create 5 fake host (host_world True (Some ''RUNNING'')) =
      (Returns (Some (InstanceAlreadyExists ''docker-host'')), host_world True (Some ''RUNNING''),
       [NewGCEService ''/store'', InstancesGet ''proj'' ''us-central1-a'' ''docker-host''])
   \<and> filter mutating (calls_of (Create 5 fake host (host_world True (Some ''RUNNING'')))) = []"
proof -
  have svc: "newGCEService fake (storePath host) (host_world True (Some ''RUNNING''))
      = (None, host_world True (Some ''RUNNING''))"
    by (simp add: fake_def)
  have inst: "Instances_Get fake (Project host) (Zone host) (InstanceName host)
        (host_world True (Some ''RUNNING''))
      = ((Some (host_instance ''RUNNING''), None), host_world True (Some ''RUNNING''))"
    by (simp add: fake_def host_def host_world_def host_instance_def)
  show ?thesis
    using svc inst Create_existing_instance [OF svc inst, of 5]
    by (simp add: host_def run_sel)
qed

subsection \<open>Operation Waiter\<close>

text \<open>
  C4. When three successive polls report RUNNING, RUNNING and DONE without errors,
  \<^verbatim>\<open>waitForOp\<close> returns success after exactly three polls (given fuel for at least
  three). When a poll reports DONE with a non-empty error list, it fails with the
  "Operation error" built from the first reported error, and that poll is the last.
\<close>

theorem waitForOp_running_running_done:
  "(ZoneOperations_Get env (project c) (zone c) name w = ((Some op1, None), w1)
      \<and> Operation_Status op1 = ''RUNNING''
      \<and> ZoneOperations_Get env (project c) (zone c) name w1 = ((Some op2, None), w2)
      \<and> Operation_Status op2 = ''RUNNING''
      \<and> ZoneOperations_Get env (project c) (zone c) name w2 = ((Some op3, None), w3)
      \<and> Operation_Status op3 = ''DONE'' \<and> Operation_Error op3 = None
    \<longrightarrow> waitForOp (Suc (Suc (Suc fuel))) env c name w =
          (Returns None, w3,
           [ZoneOperationsGet (project c) (zone c) name,
            ZoneOperationsGet (project c) (zone c) name,
            ZoneOperationsGet (project c) (zone c) name]))
   \<and> (ZoneOperations_Get env (project c) (zone c) name w = ((Some op, None), w1)
      \<and> Operation_Status op = ''DONE'' \<and> Operation_Error op = Some (e # es)
    \<longrightarrow> waitForOp (Suc fuel) env c name w =
          (Returns (Some (OperationError e)), w1, [ZoneOperationsGet (project c) (zone c) name]))"
  by (simp add: call_defs andThen_def)

theorem waitForOp_running_running_done_witness:
  "waitForOp (Suc (Suc (Suc 0))) fake host_util ''op''
     (scripted_world [polled ''RUNNING'' None, polled ''RUNNING'' None, polled ''DONE'' None]) =
     (Returns None, scripted_world [],
      [ZoneOperationsGet ''proj'' ''us-central1-a'' ''op'',
       ZoneOperationsGet ''proj'' ''us-central1-a'' ''op'',
       ZoneOperationsGet ''proj'' ''us-central1-a'' ''op''])
   \<and> waitForOp (Suc (Suc 0)) fake host_util ''op''
     (scripted_world [polled ''DONE'' (Some [quota_error, other_error]), polled ''DONE'' None]) =
     (Returns (Some (OperationError quota_error)), scripted_world [polled ''DONE'' None],
      [ZoneOperationsGet ''proj'' ''us-central1-a'' ''op''])"
  using waitForOp_running_running_done
    [where env = fake and c = host_util and name = "''op''" and fuel = 0
       and w = "scripted_world [polled ''RUNNING'' None, polled ''RUNNING'' None, polled ''DONE'' None]"
       and ?op1.0 = "the (fst (polled ''RUNNING'' None))"
       and ?w1.0 = "scripted_world [polled ''RUNNING'' None, polled ''DONE'' None]"
       and ?op2.0 = "the (fst (polled ''RUNNING'' None))"
       and ?w2.0 = "scripted_world [polled ''DONE'' None]"
       and ?op3.0 = "the (fst (polled ''DONE'' None))"
       and ?w3.0 = "scripted_world []"]
    waitForOp_running_running_done
    [where env = fake and c = host_util and name = "''op''" and fuel = "Suc 0"
       and w = "scripted_world [polled ''DONE'' (Some [quota_error, other_error]), polled ''DONE'' None]"
       and ?w1.0 = "scripted_world [polled ''DONE'' None]"
       and op = "the (fst (polled ''DONE'' (Some [quota_error, other_error])))"
       and e = quota_error and es = "[other_error]"]
  by (simp add: fake_def host_util_def scripted_world_def polled_def)

text \<open>
  C5 (as amended). On a poll that fails at transport level, \<^verbatim>\<open>waitForOp\<close> returns that
  failure at once. On a poll that reports DONE with a non-empty error list, it fails
  with the error built from the first reported error. On a poll whose status is not
  DONE, the errors the operation may carry are not looked at: the loop polls again.
\<close>

theorem waitForOp_poll:
  "(ZoneOperations_Get env (project c) (zone c) name w = ((op, Some err), w1)
    \<longrightarrow> waitForOp (Suc fuel) env c name w =
          (Returns (Some err), w1, [ZoneOperationsGet (project c) (zone c) name]))
   \<and> (ZoneOperations_Get env (project c) (zone c) name w = ((Some op', None), w1)
      \<and> Operation_Status op' = ''DONE'' \<and> Operation_Error op' = Some (e # es)
    \<longrightarrow> waitForOp (Suc fuel) env c name w =
          (Returns (Some (OperationError e)), w1, [ZoneOperationsGet (project c) (zone c) name]))
   \<and> (ZoneOperations_Get env (project c) (zone c) name w = ((Some op', None), w1)
      \<and> Operation_Status op' \<noteq> ''DONE''
    \<longrightarrow> waitForOp (Suc fuel) env c name w =
          (outcome_of (waitForOp fuel env c name w1), world_of (waitForOp fuel env c name w1),
           ZoneOperationsGet (project c) (zone c) name # calls_of (waitForOp fuel env c name w1)))"
  by (auto simp add: call_defs andThen_def outcome_of_def world_of_def calls_of_def split: prod.splits option.splits)

theorem waitForOp_poll_witness:
  "waitForOp (Suc (Suc 0)) fake host_util ''op''
     (scripted_world [(None, Some (TransportError ''reset'')), polled ''DONE'' None]) =
     (Returns (Some (TransportError ''reset'')), scripted_world [polled ''DONE'' None],
      [ZoneOperationsGet ''proj'' ''us-central1-a'' ''op''])
   \<and> waitForOp (Suc (Suc 0)) fake host_util ''op''
     (scripted_world [polled ''DONE'' (Some [quota_error, other_error]), polled ''DONE'' None]) =
     (Returns (Some (OperationError quota_error)), scripted_world [polled ''DONE'' None],
      [ZoneOperationsGet ''proj'' ''us-central1-a'' ''op''])
   \<and> waitForOp (Suc (Suc 0)) fake host_util ''op''
     (scripted_world [polled ''PENDING'' (Some [quota_error]), polled ''DONE'' None]) =
     (Returns None, scripted_world [],
      [ZoneOperationsGet ''proj'' ''us-central1-a'' ''op'',
       ZoneOperationsGet ''proj'' ''us-central1-a'' ''op''])"
  using waitForOp_poll
    [where env = fake and c = host_util and name = "''op''" and fuel = "Suc 0"
       and w = "scripted_world [(None, Some (TransportError ''reset'')), polled ''DONE'' None]"
       and ?w1.0 = "scripted_world [polled ''DONE'' None]"
       and op = None and err = "TransportError ''reset''"]
    waitForOp_poll
    [where env = fake and c = host_util and name = "''op''" and fuel = "Suc 0"
       and w = "scripted_world [polled ''DONE'' (Some [quota_error, other_error]), polled ''DONE'' None]"
       and ?w1.0 = "scripted_world [polled ''DONE'' None]"
       and op' = "the (fst (polled ''DONE'' (Some [quota_error, other_error])))"
       and e = quota_error and es = "[other_error]"]
    waitForOp_poll
    [where env = fake and c = host_util and name = "''op''" and fuel = "Suc 0"
       and w = "scripted_world [polled ''PENDING'' (Some [quota_error]), polled ''DONE'' None]"
       and ?w1.0 = "scripted_world [polled ''DONE'' None]"
       and op' = "the (fst (polled ''PENDING'' (Some [quota_error])))"]
  by (simp add: fake_def host_util_def scripted_world_def polled_def call_defs andThen_def run_sel)

text \<open>
  The claim as stated fails: a poll that reports RUNNING together with an error does not
  end the wait. The waiter polls again and, the next poll reporting DONE without errors,
  returns success.
\<close>

theorem waitForOp_error_while_running_counterexample:
  "fst (ZoneOperations_Get fake ''proj'' ''us-central1-a'' ''op''
          (scripted_world [polled ''RUNNING'' (Some [quota_error]), polled ''DONE'' None]))
     = polled ''RUNNING'' (Some [quota_error])
   \<and> waitForOp (Suc (Suc 0)) fake host_util ''op''
       (scripted_world [polled ''RUNNING'' (Some [quota_error]), polled ''DONE'' None]) =
       (Returns None, scripted_world [],
        [ZoneOperationsGet ''proj'' ''us-central1-a'' ''op'',
         ZoneOperationsGet ''proj'' ''us-central1-a'' ''op''])
   \<and> outcome_of (waitForOp (Suc (Suc 0)) fake host_util ''op''
       (scripted_world [polled ''RUNNING'' (Some [quota_error]), polled ''DONE'' None]))
     \<noteq> Returns (Some (OperationError quota_error))"
  by (simp add: fake_def host_util_def scripted_world_def polled_def call_defs andThen_def run_sel)

subsection \<open>Resource Accessor\<close>

text \<open>
  C6 (as amended). The two lookups hand the result pair of the API client to the caller
  as it is: the resource pointer and the error, whatever they are. No answer is
  translated; a "not found" error is propagated like every other error.
\<close>

theorem accessor_passthrough:
  "disk env c w =
     (Returns (fst (Disks_Get env (project c) (zone c) (instanceName c @ ''-disk'') w)),
      snd (Disks_Get env (project c) (zone c) (instanceName c @ ''-disk'') w),
      [DisksGet (project c) (zone c) (instanceName c @ ''-disk'')])
   \<and> instance' env c w =
     (Returns (fst (Instances_Get env (project c) (zone c) (instanceName c) w)),
      snd (Instances_Get env (project c) (zone c) (instanceName c) w),
      [InstancesGet (project c) (zone c) (instanceName c)])"
  by (simp add: disk_def instance'_def diskName_def call_defs split: prod.splits)

text \<open>
  The claim as stated fails: when the client answers a lookup with the error 404 and a
  nil resource, the accessor returns that pair, not \<^verbatim>\<open>(nil, nil)\<close>.
\<close>

theorem accessor_not_found_counterexample:
  "Disks_Get fake ''proj'' ''us-central1-a'' ''docker-host-disk'' (host_world False None)
     = ((None, Some (ApiError 404 ''notFound'')), host_world False None)
   \<and> outcome_of (disk fake host_util (host_world False None))
     = Returns (None, Some (ApiError 404 ''notFound''))
   \<and> outcome_of (disk fake host_util (host_world False None)) \<noteq> Returns (None, None)
   \<and> outcome_of (instance' fake host_util (host_world False None))
     = Returns (None, Some (ApiError 404 ''notFound''))
   \<and> outcome_of (instance' fake host_util (host_world False None)) \<noteq> Returns (None, None)"
  by (simp add: disk_def instance'_def diskName_def call_defs fake_def host_world_def host_util_def
      not_found_def run_sel)


subsection \<open>Driver Facade: remove\<close>

text \<open>
  C3. \<^verbatim>\<open>Remove\<close> on a Running host issues a delete-instance call and then a
  delete-disk call, on a Stopped host the delete-disk call only, and after a successful
  remove \<^verbatim>\<open>GetState\<close> returns None. The code does not achieve the last part on every
  Stopped host. \<^verbatim>\<open>Remove\<close> is documented as "Remove deletes the GCE instance and the
  disk", but it deletes the instance only when the state is \<^verbatim>\<open>state.Running\<close>
  (lemma \<open>Remove_mutations_not_Running\<close>, for every provider). A host is also Stopped
  when its instance exists with the status TERMINATED; on such a host, with a disk of
  the derived name that the instance does not use, remove deletes the disk, returns
  success and leaves the instance: the lookup still finds it and \<^verbatim>\<open>GetState\<close> still
  returns Stopped.
\<close>

theorem Remove_leaves_stopped_instance:
  "outcome_of (GetState fake host (host_world True (Some ''TERMINATED''))) = Returns (Stopped, None)
   \<and> \<not> in_use ''proj'' ''us-central1-a'' ''docker-host-disk''
         (fw_instance (host_world True (Some ''TERMINATED'')))
   \<and> Remove (Suc 0) fake host (host_world True (Some ''TERMINATED'')) =
       (Returns None, host_world False (Some ''TERMINATED''),
        [NewGCEService ''/store'', NewGCEService ''/store'',
         DisksGet ''proj'' ''us-central1-a'' ''docker-host-disk'',
         InstancesGet ''proj'' ''us-central1-a'' ''docker-host'',
         DisksDelete ''proj'' ''us-central1-a'' ''docker-host-disk'',
         ZoneOperationsGet ''proj'' ''us-central1-a'' ''delete-disk''])
   \<and> fst (Instances_Get fake ''proj'' ''us-central1-a'' ''docker-host''
            (host_world False (Some ''TERMINATED'')))
       = (Some (host_instance ''TERMINATED''), None)
   \<and> outcome_of (GetState fake host (host_world False (Some ''TERMINATED''))) = Returns (Stopped, None)
   \<and> outcome_of (GetState fake host (host_world False (Some ''TERMINATED'')))
       \<noteq> Returns (None_State, None)"
  by (simp add: Remove_terminated_run fake_host_GetState run_sel)
    (simp add: fake_simps host_world_def host_instance_def in_use_def apiURL_def)





subsection \<open>Lifecycle Controller: createInstance\<close>

text \<open>
  C7. \<^verbatim>\<open>createInstance\<close> begins with the lookup of the disk of the derived name. When
  the lookup returns a disk, no disk-insert call is issued and the next call is the
  instance insert. When it returns none, the next call is the disk insert; the instance
  insert follows only after \<^verbatim>\<open>createDisk\<close> has returned without error, after all the
  calls of \<^verbatim>\<open>createDisk\<close>; when \<^verbatim>\<open>createDisk\<close> fails, its failure is the result
  and no instance insert is issued.
\<close>

theorem createInstance_disk_step:
  "(Disks_Get env (project c) (zone c) (instanceName c @ ''-disk'') w = ((Some d, derr), w1)
     \<longrightarrow> filter is_DisksInsert (calls_of (createInstance fuel env c pub key mt w)) = []
       \<and> (\<exists>i rest. calls_of (createInstance fuel env c pub key mt w) =
             DisksGet (project c) (zone c) (instanceName c @ ''-disk'')
               # InstancesInsert (project c) (zone c) i # rest))
   \<and> (Disks_Get env (project c) (zone c) (instanceName c @ ''-disk'') w = ((None, derr), w1)
     \<longrightarrow> (\<exists>rest. calls_of (createInstance fuel env c pub key mt w) =
             DisksGet (project c) (zone c) (instanceName c @ ''-disk'')
               # DisksInsert (project c) (zone c) \<lparr>Disk_Name = instanceName c @ ''-disk''\<rparr> imageName
               # rest)
       \<and> (outcome_of (createDisk fuel env c w1) = Returns None
            \<longrightarrow> (\<exists>i rest. calls_of (createInstance fuel env c pub key mt w) =
                   DisksGet (project c) (zone c) (instanceName c @ ''-disk'')
                     # calls_of (createDisk fuel env c w1)
                     @ InstancesInsert (project c) (zone c) i # rest))
       \<and> (outcome_of (createDisk fuel env c w1) \<noteq> Returns None
            \<longrightarrow> createInstance fuel env c pub key mt w =
                  (outcome_of (createDisk fuel env c w1), world_of (createDisk fuel env c w1),
                   DisksGet (project c) (zone c) (instanceName c @ ''-disk'')
                     # calls_of (createDisk fuel env c w1))
                \<and> filter is_InstancesInsert (calls_of (createInstance fuel env c pub key mt w)) = []))"
proof (intro conjI impI)
  assume present: "Disks_Get env (project c) (zone c) (instanceName c @ ''-disk'') w = ((Some d, derr), w1)"
  note run = createInstance_disk_present [OF present, of fuel pub key mt]
  show "filter is_DisksInsert (calls_of (createInstance fuel env c pub key mt w)) = []"
    by (simp add: run run_sel filter_insertInstance)
  show "\<exists>i rest. calls_of (createInstance fuel env c pub key mt w) =
             DisksGet (project c) (zone c) (instanceName c @ ''-disk'')
               # InstancesInsert (project c) (zone c) i # rest"
    using insertInstance_first [of fuel env c pub key mt w1] by (auto simp add: run run_sel)
next
  assume absent: "Disks_Get env (project c) (zone c) (instanceName c @ ''-disk'') w = ((None, derr), w1)"
  note run = createInstance_disk_absent [OF absent, of fuel pub key mt]
  show "\<exists>rest. calls_of (createInstance fuel env c pub key mt w) =
             DisksGet (project c) (zone c) (instanceName c @ ''-disk'')
               # DisksInsert (project c) (zone c) \<lparr>Disk_Name = instanceName c @ ''-disk''\<rparr> imageName
               # rest"
  proof (cases "outcome_of (createDisk fuel env c w1) = Returns None")
    case True
    then show ?thesis
      using createDisk_first [of fuel env c w1] by (auto simp add: run(1) run_sel)
  next
    case False
    then show ?thesis
      using createDisk_first [of fuel env c w1] by (auto simp add: run(2) run_sel)
  qed
  show "\<exists>i rest. calls_of (createInstance fuel env c pub key mt w) =
                   DisksGet (project c) (zone c) (instanceName c @ ''-disk'')
                     # calls_of (createDisk fuel env c w1)
                     @ InstancesInsert (project c) (zone c) i # rest"
    if ok: "outcome_of (createDisk fuel env c w1) = Returns None"
    using insertInstance_first [of fuel env c pub key mt "world_of (createDisk fuel env c w1)"]
    by (auto simp add: run(1) [OF ok] run_sel)
  show "createInstance fuel env c pub key mt w =
                  (outcome_of (createDisk fuel env c w1), world_of (createDisk fuel env c w1),
                   DisksGet (project c) (zone c) (instanceName c @ ''-disk'')
                     # calls_of (createDisk fuel env c w1))"
    if "outcome_of (createDisk fuel env c w1) \<noteq> Returns None"
    using that by (rule run(2))
  show "filter is_InstancesInsert (calls_of (createInstance fuel env c pub key mt w)) = []"
    if "outcome_of (createDisk fuel env c w1) \<noteq> Returns None"
    by (simp add: run(2) [OF that] run_sel filter_createDisk)
qed

theorem createInstance_disk_step_witness:
  "filter is_DisksInsert
     (calls_of (createInstance (Suc 0) fake host_util ''/store/id_rsa.pub'' ''/store/id_rsa''
        ''f1-micro'' (host_world True None))) = []
   \<and> (\<exists>i rest. calls_of (createInstance (Suc 0) fake host_util ''/store/id_rsa.pub''
          ''/store/id_rsa'' ''f1-micro'' (host_world True None)) =
        DisksGet ''proj'' ''us-central1-a'' ''docker-host-disk''
          # InstancesInsert ''proj'' ''us-central1-a'' i # rest)
   \<and> (\<exists>i rest. calls_of (createInstance (Suc 0) fake host_util ''/store/id_rsa.pub''
          ''/store/id_rsa'' ''f1-micro'' (host_world False None)) =
        DisksGet ''proj'' ''us-central1-a'' ''docker-host-disk''
          # DisksInsert ''proj'' ''us-central1-a'' \<lparr>Disk_Name = ''docker-host-disk''\<rparr> imageName
          # ZoneOperationsGet ''proj'' ''us-central1-a'' ''insert-disk''
          # InstancesInsert ''proj'' ''us-central1-a'' i # rest)"
proof -
  have names: "project host_util = ''proj''" "zone host_util = ''us-central1-a''"
    "instanceName host_util @ ''-disk'' = ''docker-host-disk''"
    by (simp_all add: host_util_def)
  have ok: "outcome_of (createDisk (Suc 0) fake host_util (host_world False None)) = Returns None"
    by (simp add: host_createDisk run_sel)
  show ?thesis
    using createInstance_disk_step
      [where env = fake and c = host_util and fuel = "Suc 0" and pub = "''/store/id_rsa.pub''"
         and key = "''/store/id_rsa''" and mt = "''f1-micro''"
         and w = "host_world True None" and ?w1.0 = "host_world True None"
         and d = "\<lparr>Disk_Name = ''docker-host-disk''\<rparr>" and derr = None]
      createInstance_disk_step
      [where env = fake and c = host_util and fuel = "Suc 0" and pub = "''/store/id_rsa.pub''"
         and key = "''/store/id_rsa''" and mt = "''f1-micro''"
         and w = "host_world False None" and ?w1.0 = "host_world False None"
         and derr = "Some not_found"]
      host_disk_lookup [of None] ok
    by (simp add: names host_createDisk run_sel)
qed

text \<open>
  C10. \<^verbatim>\<open>createInstance\<close> discards the result of the wait for SSH: replacing what
  \<^verbatim>\<open>ssh.WaitForTCP\<close> returns by any other value, an error or none, changes nothing in
  the run: the outcome, the world and the trace are the same. In every run the wait, once
  called, is followed by the read of the public key file, and the next of these calls,
  if there is one, is the metadata-set call.
\<close>

theorem createInstance_ignores_waitForSSH:
  "createInstance fuel
      (env\<lparr>ssh_WaitForTCP := (\<lambda>addr w. (r addr w, snd (ssh_WaitForTCP env addr w)))\<rparr>)
      c pub key mt w
     = createInstance fuel env c pub key mt w
   \<and> (filter (\<lambda>x. is_WaitForTCP x \<or> is_ReadFile x \<or> is_InstancesSetMetadata x)
        (calls_of (createInstance fuel env c pub key mt w)) = []
      \<or> (\<exists>addr. filter (\<lambda>x. is_WaitForTCP x \<or> is_ReadFile x \<or> is_InstancesSetMetadata x)
        (calls_of (createInstance fuel env c pub key mt w)) = [WaitForTCP addr, ReadFile pub])
      \<or> (\<exists>addr m. filter (\<lambda>x. is_WaitForTCP x \<or> is_ReadFile x \<or> is_InstancesSetMetadata x)
        (calls_of (createInstance fuel env c pub key mt w)) =
          [WaitForTCP addr, ReadFile pub,
           InstancesSetMetadata (project c) (zone c) (instanceName c) m]))"
proof
  show "createInstance fuel
      (env\<lparr>ssh_WaitForTCP := (\<lambda>addr w. (r addr w, snd (ssh_WaitForTCP env addr w)))\<rparr>)
      c pub key mt w
     = createInstance fuel env c pub key mt w"
    by (rule createInstance_env)
next
  let ?P = "\<lambda>x. is_WaitForTCP x \<or> is_ReadFile x \<or> is_InstancesSetMetadata x"
  let ?goal = "\<lambda>t. filter ?P t = []
      \<or> (\<exists>addr. filter ?P t = [WaitForTCP addr, ReadFile pub])
      \<or> (\<exists>addr m. filter ?P t =
          [WaitForTCP addr, ReadFile pub, InstancesSetMetadata (project c) (zone c) (instanceName c) m])"
  have tail: "\<And>w'. ?goal (calls_of (setupInstance fuel env c pub key w'))"
    by (rule setupInstance_order)
  have ins: "\<And>w'. ?goal (calls_of (insertInstance fuel env c pub key mt w'))"
  proof -
    fix w'
    from insertInstance_order [of fuel env c pub key mt w'] tail
    show "?goal (calls_of (insertInstance fuel env c pub key mt w'))"
      by (elim disjE exE) simp_all
  qed
  from createInstance_order_aux [of fuel env c pub key mt w] ins
  show "?goal (calls_of (createInstance fuel env c pub key mt w))"
    by (elim disjE exE) simp_all
qed

theorem createInstance_ignores_waitForSSH_witness:
  "ssh_WaitForTCP unreachable ''203.0.113.7:22'' (host_world True None)
     = (Some (TransportError ''unreachable''), host_world True None)
   \<and> createInstance (Suc 0) unreachable host_util ''/store/id_rsa.pub'' ''/store/id_rsa'' ''f1-micro''
       (host_world True None)
     = createInstance (Suc 0) fake host_util ''/store/id_rsa.pub'' ''/store/id_rsa'' ''f1-micro''
         (host_world True None)
   \<and> outcome_of (createInstance (Suc 0) unreachable host_util ''/store/id_rsa.pub''
        ''/store/id_rsa'' ''f1-micro'' (host_world True None)) = Returns None
   \<and> filter (\<lambda>x. is_WaitForTCP x \<or> is_ReadFile x \<or> is_InstancesSetMetadata x)
       (calls_of (createInstance (Suc 0) unreachable host_util ''/store/id_rsa.pub''
          ''/store/id_rsa'' ''f1-micro'' (host_world True None))) =
       [WaitForTCP ''203.0.113.7:22'', ReadFile ''/store/id_rsa.pub'',
        InstancesSetMetadata ''proj'' ''us-central1-a'' ''docker-host''
          \<lparr>Metadata_Fingerprint = ''fp0'',
           Metadata_Items =
             [\<lparr>MetadataItems_Key = ''sshKeys'',
               MetadataItems_Value = ''user:ssh-rsa AAAA'' @ [CHR 0x0A]\<rparr>]\<rparr>]"
proof -
  have env: "unreachable =
      fake\<lparr>ssh_WaitForTCP :=
        (\<lambda>addr w. ((\<lambda>_ _. Some (TransportError ''unreachable'')) addr w,
                    snd (ssh_WaitForTCP fake addr w)))\<rparr>"
    by (simp add: unreachable_def fake_simps)
  have same: "createInstance (Suc 0) unreachable host_util ''/store/id_rsa.pub'' ''/store/id_rsa''
        ''f1-micro'' (host_world True None)
     = createInstance (Suc 0) fake host_util ''/store/id_rsa.pub'' ''/store/id_rsa'' ''f1-micro''
         (host_world True None)"
    unfolding env
    using createInstance_ignores_waitForSSH
      [of "Suc 0" "\<lambda>_ _. Some (TransportError ''unreachable'')" fake host_util
          "''/store/id_rsa.pub''" "''/store/id_rsa''" "''f1-micro''" "host_world True None"]
    by blast
  have order: "filter (\<lambda>x. is_WaitForTCP x \<or> is_ReadFile x \<or> is_InstancesSetMetadata x)
       (calls_of (createInstance (Suc 0) fake host_util ''/store/id_rsa.pub''
          ''/store/id_rsa'' ''f1-micro'' (host_world True None))) =
       [WaitForTCP ''203.0.113.7:22'', ReadFile ''/store/id_rsa.pub'',
        InstancesSetMetadata ''proj'' ''us-central1-a'' ''docker-host''
          \<lparr>Metadata_Fingerprint = ''fp0'',
           Metadata_Items =
             [\<lparr>MetadataItems_Key = ''sshKeys'',
               MetadataItems_Value = ''user:ssh-rsa AAAA'' @ [CHR 0x0A]\<rparr>]\<rparr>]"
    using createInstance_disk_present [OF host_disk_lookup(1) [of None],
        where fuel = "Suc 0" and pub = "''/store/id_rsa.pub''" and key = "''/store/id_rsa''"
          and mt = "''f1-micro''"]
      fake_insertInstance_order [OF host_world_polls [of True None],
        where fuel = 0 and pub = "''/store/id_rsa.pub''" and key = "''/store/id_rsa''"
          and mt = "''f1-micro''"]
    by (simp add: run_sel)
  show ?thesis
    using same order host_createInstance_ok
    by (simp add: unreachable_def)
qed

subsection \<open>Driver Facade: restart\<close>



end
